theory Spec2Isabelle
  imports Main "HOL-Library.Sublist"
begin

section \<open>goresetit: the reset workflow, its release cleanup and the command line\<close>

text \<open>
  The development embeds \<^verbatim>\<open>structs.go\<close>, \<^verbatim>\<open>functions.go\<close>, \<^verbatim>\<open>main.go\<close> and the prompt
  functions of the user-interface file.  Everything outside the process (the file system, the
  \<^verbatim>\<open>git\<close> executable, the GitHub and GitLab APIs, the terminal prompts) is a parameter, the
  record \<open>world\<close>; everything the program does to the outside is appended to a trace of
  events, in the order of the calls.
\<close>

subsection \<open>Data of \<^verbatim>\<open>structs.go\<close>\<close>

text \<open>\<^verbatim>\<open>type GitProvider int\<close> with the constants \<^verbatim>\<open>GitHub = iota\<close> and \<^verbatim>\<open>GitLab\<close>.  The
  type stays an integer, so that the \<^verbatim>\<open>default\<close> branches of the switches are branches of
  the model.\<close>

type_synonym GitProvider = int

definition GitHub :: GitProvider where
  "GitHub = 0"

definition GitLab :: GitProvider where
  "GitLab = 1"

record RepoInfo =
  Provider :: GitProvider
  FullPath :: string
  RepoName :: string
  Token :: string
  GitLabURL :: string
  DryRun :: bool

text \<open>The fields of \<^verbatim>\<open>CommandLineFlags\<close> carry the prefix \<open>flag_\<close>, because four of them
  share their names with fields of \<open>RepoInfo\<close>.\<close>

record CommandLineFlags =
  flag_RepoPath :: string
  flag_Token :: string
  flag_Provider :: string
  flag_GitLabURL :: string
  flag_DryRun :: bool
  flag_NoInteractive :: bool
  flag_CommitMsg :: string

subsection \<open>Errors and formatted text\<close>

text \<open>
  An \<^verbatim>\<open>error\<close> value is one of: the \<^verbatim>\<open>CommandError\<close> struct (command line, captured output,
  underlying error); an error that comes from outside (the operating system, an API client, the
  terminal), opaque to the program; the result of \<^verbatim>\<open>fmt.Errorf(format, args...)\<close>, kept as the
  format and its arguments.  A run-time panic (nil pointer dereference, index out of range) is
  not an error value in Go; it unwinds the call stack.  The model propagates it through the same
  channel and keeps it apart by its constructor.
\<close>

datatype error =
    CommandError string string error
  | External string
  | Errorf string "fmtarg list"
  | NilPointerPanic
  | IndexPanic
and fmtarg =
    ArgS string
  | ArgD int
  | ArgV error
  | ArgL "string list"

text \<open>The four \<^verbatim>\<open>lipgloss\<close> styles used for messages, and \<^verbatim>\<open>style.Render(format, args...)\<close>
  kept as the style with the strings and values handed to it.\<close>

datatype style = success | info | warning | errorStyle

datatype rendered = Render style string "fmtarg list"

subsection \<open>Strings: the functions of package \<^verbatim>\<open>strings\<close> that the program calls\<close>

text \<open>A Go string is a sequence of bytes, as \<open>string\<close> is here.\<close>

text \<open>\<^verbatim>\<open>strings.Split(s, sep)\<close> for a separator of one byte (the program splits at
  \<^verbatim>\<open>"\n"\<close> and at \<^verbatim>\<open>"/"\<close>): the pieces between the separators, one more than there are
  separators, so the empty string gives one empty piece.\<close>

fun Split :: "string \<Rightarrow> char \<Rightarrow> string list" where
  "Split [] sep = [[]]"
| "Split (c # cs) sep =
     (if c = sep then [] # Split cs sep
      else (case Split cs sep of
              x # xs \<Rightarrow> (c # x) # xs
            | [] \<Rightarrow> [[c]]))"

text \<open>\<^verbatim>\<open>strings.Join(elems, sep)\<close>.\<close>

fun Join :: "string list \<Rightarrow> string \<Rightarrow> string" where
  "Join [] sep = []"
| "Join [x] sep = x"
| "Join (x # y # ys) sep = x @ sep @ Join (y # ys) sep"

text \<open>\<^verbatim>\<open>strings.Contains(s, substr)\<close>: \<open>substr\<close> occurs somewhere in \<open>s\<close>.\<close>

fun Contains :: "string \<Rightarrow> string \<Rightarrow> bool" where
  "Contains [] substr = (substr = [])"
| "Contains (c # cs) substr = (prefix substr (c # cs) \<or> Contains cs substr)"

text \<open>
  \<^verbatim>\<open>strings.TrimSpace(s)\<close> removes the leading and the trailing white space "as defined by
  Unicode".  \<^verbatim>\<open>unicode.IsSpace\<close> holds of U+0009 to U+000D, U+0020, U+0085, U+00A0, U+1680,
  U+2000 to U+200A, U+2028, U+2029, U+202F, U+205F and U+3000; \<open>space_runes\<close> lists their
  UTF-8 encodings.  No encoding is a prefix or a suffix of another one.
\<close>

definition space_runes :: "string list" where
  "space_runes =
     [[CHR 0x09], [CHR 0x0A], [CHR 0x0B], [CHR 0x0C], [CHR 0x0D], [CHR 0x20],
      [CHR 0xC2, CHR 0x85], [CHR 0xC2, CHR 0xA0],
      [CHR 0xE1, CHR 0x9A, CHR 0x80],
      [CHR 0xE2, CHR 0x80, CHR 0x80], [CHR 0xE2, CHR 0x80, CHR 0x81],
      [CHR 0xE2, CHR 0x80, CHR 0x82], [CHR 0xE2, CHR 0x80, CHR 0x83],
      [CHR 0xE2, CHR 0x80, CHR 0x84], [CHR 0xE2, CHR 0x80, CHR 0x85],
      [CHR 0xE2, CHR 0x80, CHR 0x86], [CHR 0xE2, CHR 0x80, CHR 0x87],
      [CHR 0xE2, CHR 0x80, CHR 0x88], [CHR 0xE2, CHR 0x80, CHR 0x89],
      [CHR 0xE2, CHR 0x80, CHR 0x8A],
      [CHR 0xE2, CHR 0x80, CHR 0xA8], [CHR 0xE2, CHR 0x80, CHR 0xA9],
      [CHR 0xE2, CHR 0x80, CHR 0xAF], [CHR 0xE2, CHR 0x81, CHR 0x9F],
      [CHR 0xE3, CHR 0x80, CHR 0x80]]"

text \<open>The number of bytes of the white-space rune that \<open>s\<close> begins with (ends with), and 0
  when it begins (ends) with none.\<close>

definition leading_space :: "string \<Rightarrow> nat" where
  "leading_space s =
     (case filter (\<lambda>p. prefix p s) space_runes of [] \<Rightarrow> 0 | p # _ \<Rightarrow> length p)"

definition trailing_space :: "string \<Rightarrow> nat" where
  "trailing_space s =
     (case filter (\<lambda>p. suffix p s) space_runes of [] \<Rightarrow> 0 | p # _ \<Rightarrow> length p)"

function TrimLeft :: "string \<Rightarrow> string" where
  "TrimLeft s = (if leading_space s = 0 then s else TrimLeft (drop (leading_space s) s))"
  by pat_completeness auto
termination
proof (relation "measure length")
  show "wf (measure length)" by simp
next
  fix s :: string
  assume pos: "leading_space s \<noteq> 0"
  then obtain p ps where "filter (\<lambda>p. prefix p s) space_runes = p # ps"
    by (cases "filter (\<lambda>p. prefix p s) space_runes") (auto simp: leading_space_def)
  then have "p \<in> set (filter (\<lambda>p. prefix p s) space_runes)" by simp
  then have "set p \<subseteq> set s" by (auto dest: set_mono_prefix)
  with pos have "s \<noteq> []" by (auto simp: leading_space_def space_runes_def)
  with pos show "(drop (leading_space s) s, s) \<in> measure length" by simp
qed

function TrimRight :: "string \<Rightarrow> string" where
  "TrimRight s =
     (if trailing_space s = 0 then s else TrimRight (take (length s - trailing_space s) s))"
  by pat_completeness auto
termination
proof (relation "measure length")
  show "wf (measure length)" by simp
next
  fix s :: string
  assume pos: "trailing_space s \<noteq> 0"
  have "s \<noteq> []"
  proof
    assume "s = []"
    then have "filter (\<lambda>p. suffix p s) space_runes = []" by (simp add: space_runes_def)
    with pos show False by (simp add: trailing_space_def)
  qed
  with pos show "(take (length s - trailing_space s) s, s) \<in> measure length" by simp
qed

declare TrimLeft.simps [simp del] TrimRight.simps [simp del]

definition TrimSpace :: "string \<Rightarrow> string" where
  "TrimSpace s = TrimRight (TrimLeft s)"

subsection \<open>The outside world and the state of the process\<close>

text \<open>A directory is the list of its path components below the root.\<close>

type_synonym path = "string list"

text \<open>A release as the GitHub client returns it: \<^verbatim>\<open>ID *int64\<close>, \<^verbatim>\<open>Name *string\<close> and
  \<^verbatim>\<open>TagName *string\<close> are pointers, \<open>None\<close> is \<^verbatim>\<open>nil\<close>.  The elements of the returned
  slice themselves are taken to be non-nil.\<close>

record gh_release =
  gh_ID :: "int option"
  gh_Name :: "string option"
  gh_TagName :: "string option"

text \<open>A release as the GitLab client returns it: \<^verbatim>\<open>Name\<close> and \<^verbatim>\<open>TagName\<close> are strings.\<close>

record gl_release =
  gl_Name :: string
  gl_TagName :: string

text \<open>The models of the two terminal programs (user-interface file).  Of the text input only
  its value is kept.\<close>

record CommitModel =
  TextInput :: string
  Err :: "error option"
  Commit_Done :: bool

record ConfirmModel =
  Question :: string
  Confirm_Done :: bool
  Answer :: bool

datatype tea_model = CommitM CommitModel | ConfirmM ConfirmModel | OtherModel

text \<open>
  What the process does to the outside, one event for each call, in the order of the calls.
\<close>

datatype event =
    RemoveAll path
  | MkdirAll path
  | Chdir path
  | Git "string list"
  | Print string
  | Println rendered
  | Printf rendered "fmtarg list"
  | GitHub_ListReleases string string
  | GitHub_DeleteRelease string string int
  | GitLab_ListReleases string
  | GitLab_DeleteRelease string string
  | TeaRun tea_model
  | ShowLogo
  | Usage

text \<open>
  What the outside answers.  Each answer is a function of the arguments of the call.  The two
  calls of \<^verbatim>\<open>os.RemoveAll\<close> have the same argument and are answered apart: \<open>os_RemoveAll\<close>
  answers the one that clears a stale workspace, \<open>os_RemoveAll_deferred\<close> the deferred one.
  \<open>git\<close> gives the output and the error of running \<^verbatim>\<open>git\<close> with the arguments.  The API
  answers depend on the token and, for GitLab, on the base URL the client was made with; a
  failed GitLab call may or may not carry a response, of which the status code is kept.
  \<open>tea_Run\<close> runs a terminal program from its initial model to its final model.
  \<^verbatim>\<open>strings.ToLower\<close> maps by the Unicode tables of the Go library and is a parameter too.
\<close>

record world =
  os_TempDir :: path
  os_RemoveAll :: "path \<Rightarrow> error option"
  os_RemoveAll_deferred :: "path \<Rightarrow> error option"
  os_MkdirAll :: "path \<Rightarrow> error option"
  os_Chdir :: "path \<Rightarrow> error option"
  git :: "string list \<Rightarrow> string \<times> error option"
  github_ListReleases :: "string \<Rightarrow> string \<Rightarrow> string \<Rightarrow> error + gh_release list"
  github_DeleteRelease :: "string \<Rightarrow> string \<Rightarrow> string \<Rightarrow> int \<Rightarrow> error option"
  gitlab_NewClient :: "string \<Rightarrow> string \<Rightarrow> error option"
  gitlab_ListReleases :: "string \<Rightarrow> string \<Rightarrow> string \<Rightarrow> (int option \<times> error) + gl_release list"
  gitlab_DeleteRelease :: "string \<Rightarrow> string \<Rightarrow> string \<Rightarrow> string \<Rightarrow> (int option \<times> error) option"
  tea_Run :: "tea_model \<Rightarrow> error + tea_model"
  ToLower :: "string \<Rightarrow> string"

text \<open>
  The state of the process: the events so far, the current working directory, and the
  directories that were removed and not created again.
\<close>

record state =
  trace :: "event list"
  cwd :: path
  gone :: "path list"

definition emit :: "event list \<Rightarrow> state \<Rightarrow> state" where
  "emit es s = s\<lparr>trace := trace s @ es\<rparr>"

text \<open>The working directory lies in a removed directory.\<close>

definition dangling :: "state \<Rightarrow> bool" where
  "dangling s = list_ex (\<lambda>p. prefix p (cwd s)) (gone s)"

text \<open>\<^verbatim>\<open>os.RemoveAll(path)\<close>: on success the directory and all below it are gone.\<close>

definition RemoveAll_call :: "(path \<Rightarrow> error option) \<Rightarrow> path \<Rightarrow> state \<Rightarrow> error option \<times> state" where
  "RemoveAll_call answer p s =
     (case answer p of
        Some err \<Rightarrow> (Some err, emit [RemoveAll p] s)
      | None \<Rightarrow> (None, (emit [RemoveAll p] s)\<lparr>gone := p # gone s\<rparr>))"

text \<open>\<^verbatim>\<open>os.MkdirAll(path, 0755)\<close>: on success the directory and its parents exist.\<close>

definition MkdirAll_call :: "world \<Rightarrow> path \<Rightarrow> state \<Rightarrow> error option \<times> state" where
  "MkdirAll_call w p s =
     (case os_MkdirAll w p of
        Some err \<Rightarrow> (Some err, emit [MkdirAll p] s)
      | None \<Rightarrow> (None, (emit [MkdirAll p] s)\<lparr>gone := filter (\<lambda>q. \<not> prefix q p) (gone s)\<rparr>))"

text \<open>The directory that a path \<open>name\<close> names in the directory \<open>base\<close>: absolute when it
  starts with a slash; empty components and \<^verbatim>\<open>.\<close> stay, \<^verbatim>\<open>..\<close> goes up.\<close>

definition resolve :: "path \<Rightarrow> string \<Rightarrow> path" where
  "resolve base name =
     foldl (\<lambda>p c. if c = [] \<or> c = ''.'' then p else if c = ''..'' then butlast p else p @ [c])
       (if prefix ''/'' name then [] else base)
       (Split name (CHR ''/''))"

text \<open>\<^verbatim>\<open>os.Chdir(dir)\<close>, with \<open>dir\<close> resolved: on success the working directory moves.\<close>

definition Chdir_call :: "world \<Rightarrow> path \<Rightarrow> state \<Rightarrow> error option \<times> state" where
  "Chdir_call w dir s =
     (case os_Chdir w dir of
        Some err \<Rightarrow> (Some err, emit [Chdir dir] s)
      | None \<Rightarrow> (None, (emit [Chdir dir] s)\<lparr>cwd := dir\<rparr>))"

subsection \<open>\<^verbatim>\<open>functions.go\<close>: the process runner and the tag enumerator\<close>

definition RunGitCommandWithOutput :: "world \<Rightarrow> string list \<Rightarrow> state \<Rightarrow> error option \<times> state" where
  "RunGitCommandWithOutput w args s =
     (case git w args of
        (output, Some err) \<Rightarrow>
          (Some (CommandError (''git '' @ Join args '' '') output err), emit [Git args] s)
      | (output, None) \<Rightarrow>
          (None, emit (Git args # (if length output > 0 then [Print output] else [])) s))"

definition GetGitTags :: "world \<Rightarrow> state \<Rightarrow> (error + string list) \<times> state" where
  "GetGitTags w s =
     (case git w [''tag''] of
        (output, Some err) \<Rightarrow> (Inl (CommandError ''git tag'' output err), emit [Git [''tag'']] s)
      | (output, None) \<Rightarrow>
          (let tags = Split (TrimSpace output) (CHR ''\<newline>'') in
           if length tags = 1 \<and> tags ! 0 = [] then (Inr [], emit [Git [''tag'']] s)
           else (Inr tags, emit [Git [''tag'']] s)))"

subsection \<open>\<^verbatim>\<open>functions.go\<close>: release cleanup\<close>

text \<open>The loop of the dry-run branch of \<^verbatim>\<open>DeleteGitHubReleases\<close>: one line for each release;
  each of the three dereferences panics on \<^verbatim>\<open>nil\<close>.\<close>

fun github_report_releases :: "gh_release list \<Rightarrow> state \<Rightarrow> error option \<times> state" where
  "github_report_releases [] s = (None, s)"
| "github_report_releases (release # releases) s =
     (case (gh_ID release, gh_Name release, gh_TagName release) of
        (Some i, Some n, Some t) \<Rightarrow>
          github_report_releases releases
            (emit [Printf (Render info ''- Release %d: %s (tag: %s)\<newline>'' [])
                     [ArgD i, ArgS n, ArgS t]] s)
      | _ \<Rightarrow> (Some NilPointerPanic, s))"

text \<open>The loop of the other branch: delete each release by its identifier; a failed deletion is
  printed as a warning and the loop goes on.\<close>

fun github_delete_releases :: "world \<Rightarrow> RepoInfo \<Rightarrow> gh_release list \<Rightarrow> state \<Rightarrow> error option \<times> state" where
  "github_delete_releases w repoInfo [] s = (None, s)"
| "github_delete_releases w repoInfo (release # releases) s =
     (case gh_ID release of
        None \<Rightarrow> (Some NilPointerPanic, s)
      | Some i \<Rightarrow>
          (let s1 = emit [GitHub_DeleteRelease (FullPath repoInfo) (RepoName repoInfo) i] s in
           case github_DeleteRelease w (Token repoInfo) (FullPath repoInfo) (RepoName repoInfo) i of
             Some err \<Rightarrow>
               github_delete_releases w repoInfo releases
                 (emit [Println (Render warning ''Warning: Failed to delete release %d: %v''
                          [ArgD i, ArgV err])] s1)
           | None \<Rightarrow>
               (case gh_Name release of
                  None \<Rightarrow> (Some NilPointerPanic, s1)
                | Some n \<Rightarrow>
                    github_delete_releases w repoInfo releases
                      (emit [Println (Render success ''Deleted release %d: %s''
                               [ArgD i, ArgS n])] s1))))"

definition DeleteGitHubReleases :: "world \<Rightarrow> RepoInfo \<Rightarrow> state \<Rightarrow> error option \<times> state" where
  "DeleteGitHubReleases w repoInfo s =
     (let s1 = emit [GitHub_ListReleases (FullPath repoInfo) (RepoName repoInfo)] s in
      case github_ListReleases w (Token repoInfo) (FullPath repoInfo) (RepoName repoInfo) of
        Inl err \<Rightarrow> (Some (Errorf ''failed to list releases: %v'' [ArgV err]), s1)
      | Inr releases \<Rightarrow>
          if length releases = 0
          then (None, emit [Println (Render info ''No releases found to delete'' [])] s1)
          else
            (let s2 = emit [Println (Render info ''Found %d releases''
                                      [ArgD (int (length releases))])] s1 in
             if DryRun repoInfo
             then github_report_releases releases
                    (emit [Println (Render info
                             ''\<newline>The following releases would be deleted:'' [])] s2)
             else github_delete_releases w repoInfo releases s2))"

fun gitlab_report_releases :: "gl_release list \<Rightarrow> state \<Rightarrow> state" where
  "gitlab_report_releases [] s = s"
| "gitlab_report_releases (release # releases) s =
     gitlab_report_releases releases
       (emit [Printf (Render info ''- Release: %s (tag: %s)\<newline>'' [])
                [ArgS (gl_Name release), ArgS (gl_TagName release)]] s)"

fun gitlab_delete_releases :: "world \<Rightarrow> RepoInfo \<Rightarrow> string \<Rightarrow> gl_release list \<Rightarrow> state \<Rightarrow> state" where
  "gitlab_delete_releases w repoInfo fullPath [] s = s"
| "gitlab_delete_releases w repoInfo fullPath (release # releases) s =
     (let s1 = emit [GitLab_DeleteRelease fullPath (gl_TagName release)] s in
      case gitlab_DeleteRelease w (Token repoInfo) (GitLabURL repoInfo) fullPath
             (gl_TagName release) of
        Some (Some status, err) \<Rightarrow>
          gitlab_delete_releases w repoInfo fullPath releases
            (emit [Println (Render warning
                     ''Warning: Failed to delete release %s (status %d): %v''
                     [ArgS (gl_TagName release), ArgD status, ArgV err])] s1)
      | Some (None, err) \<Rightarrow>
          gitlab_delete_releases w repoInfo fullPath releases
            (emit [Println (Render warning ''Warning: Failed to delete release %s: %v''
                     [ArgS (gl_TagName release), ArgV err])] s1)
      | None \<Rightarrow>
          gitlab_delete_releases w repoInfo fullPath releases
            (emit [Println (Render success ''Deleted release: %s''
                     [ArgS (gl_Name release)])] s1))"

definition DeleteGitLabReleases :: "world \<Rightarrow> RepoInfo \<Rightarrow> state \<Rightarrow> error option \<times> state" where
  "DeleteGitLabReleases w repoInfo s =
     (case gitlab_NewClient w (Token repoInfo) (GitLabURL repoInfo) of
        Some err \<Rightarrow> (Some (Errorf ''failed to create GitLab client: %v'' [ArgV err]), s)
      | None \<Rightarrow>
          (let fullPath = FullPath repoInfo @ ''/'' @ RepoName repoInfo;
               s1 = emit [GitLab_ListReleases fullPath] s in
           case gitlab_ListReleases w (Token repoInfo) (GitLabURL repoInfo) fullPath of
             Inl (Some status, err) \<Rightarrow>
               (Some (Errorf ''failed to list releases (status %d): %v''
                        [ArgD status, ArgV err]), s1)
           | Inl (None, err) \<Rightarrow> (Some (Errorf ''failed to list releases: %v'' [ArgV err]), s1)
           | Inr releases \<Rightarrow>
               if length releases = 0
               then (None, emit [Println (Render info ''No releases found to delete'' [])] s1)
               else
                 (let s2 = emit [Println (Render info ''Found %d releases''
                                           [ArgD (int (length releases))])] s1 in
                  if DryRun repoInfo
                  then (None, gitlab_report_releases releases
                                (emit [Println (Render info
                                         ''\<newline>The following releases would be deleted:'' [])] s2))
                  else (None, gitlab_delete_releases w repoInfo fullPath releases s2))))"

subsection \<open>\<^verbatim>\<open>functions.go\<close>: the reset workflow\<close>

text \<open>The clone URL (lines 75 to 81); it stays the empty string for any other provider.\<close>

definition cloneURL :: "RepoInfo \<Rightarrow> string" where
  "cloneURL repoInfo =
     (if Provider repoInfo = GitHub
      then ''https://github.com/'' @ FullPath repoInfo @ ''/'' @ RepoName repoInfo @ ''.git''
      else if Provider repoInfo = GitLab
      then GitLabURL repoInfo @ ''/'' @ FullPath repoInfo @ ''/'' @ RepoName repoInfo @ ''.git''
      else [])"

text \<open>The table of the five git operations (lines 90 to 99).\<close>

definition gitOperations :: "string \<Rightarrow> (string \<times> string list) list" where
  "gitOperations commitMessage =
     [(''Creating new orphan branch'', [''checkout'', ''--orphan'', ''temp_branch'']),
      (''Staging all files'', [''add'', ''-A'']),
      (''Creating initial commit'', [''commit'', ''-m'', commitMessage]),
      (''Removing old main branch'', [''branch'', ''-D'', ''main'']),
      (''Renaming branch to main'', [''branch'', ''-m'', ''main''])]"

text \<open>The loop over the table (lines 101 to 108).  On a failed command the loop looks at
  \<^verbatim>\<open>op.args[0]\<close>, the first argument alone.\<close>

fun run_gitOperations :: "world \<Rightarrow> (string \<times> string list) list \<Rightarrow> state \<Rightarrow> error option \<times> state" where
  "run_gitOperations w [] s = (None, s)"
| "run_gitOperations w ((desc, args) # ops) s =
     (let s1 = emit [Println (Render info ''Executing: git %s'' [ArgS (Join args '' '')])] s in
      case RunGitCommandWithOutput w args s1 of
        (Some err, s2) \<Rightarrow>
          (case args of
             [] \<Rightarrow> (Some IndexPanic, s2)
           | a0 # _ \<Rightarrow>
               if \<not> Contains a0 ''branch -D''
               then (Some (Errorf ''failed to %s: %v'' [ArgS desc, ArgV err]), s2)
               else run_gitOperations w ops s2)
      | (None, s2) \<Rightarrow> run_gitOperations w ops s2)"

text \<open>The loop that deletes the local tags (lines 118 to 123).\<close>

fun delete_local_tags :: "world \<Rightarrow> string list \<Rightarrow> state \<Rightarrow> state" where
  "delete_local_tags w [] s = s"
| "delete_local_tags w (tag # tags) s =
     (let s1 = emit [Println (Render info ''Removing local tag: %s'' [ArgS tag])] s in
      case RunGitCommandWithOutput w [''tag'', ''-d'', tag] s1 of
        (Some err, s2) \<Rightarrow>
          delete_local_tags w tags
            (emit [Println (Render warning ''Warning: Failed to delete local tag %s: %v''
                     [ArgS tag, ArgV err])] s2)
      | (None, s2) \<Rightarrow> delete_local_tags w tags s2)"

text \<open>The loop that deletes the remote tags (lines 139 to 145).\<close>

fun delete_remote_tags :: "world \<Rightarrow> string list \<Rightarrow> state \<Rightarrow> state" where
  "delete_remote_tags w [] s = s"
| "delete_remote_tags w (tag # tags) s =
     (case RunGitCommandWithOutput w [''push'', ''origin'', ''--delete'', ''refs/tags/'' @ tag] s of
        (Some err, s1) \<Rightarrow>
          delete_remote_tags w tags
            (emit [Println (Render warning ''Warning: Failed to delete remote tag %s: %v''
                     [ArgS tag, ArgV err])] s1)
      | (None, s1) \<Rightarrow>
          delete_remote_tags w tags
            (emit [Println (Render success ''Deleted remote tag: %s'' [ArgS tag])] s1))"

text \<open>The part of \<^verbatim>\<open>ResetRepo\<close> after the dry-run checkpoint (lines 137 to 161): remote tag
  cleanup, force push, and the release cleanup of the provider.\<close>

definition ResetRepo_remote :: "world \<Rightarrow> RepoInfo \<Rightarrow> string list \<Rightarrow> state \<Rightarrow> error option \<times> state" where
  "ResetRepo_remote w repoInfo tags s7 =
     (let s8 = (if length tags > 0 then delete_remote_tags w tags s7 else s7) in
      case RunGitCommandWithOutput w [''push'', ''-f'', ''origin'', ''main''] s8 of
        (Some err, s9) \<Rightarrow> (Some (Errorf ''failed to push changes: %v'' [ArgV err]), s9)
      | (None, s9) \<Rightarrow>
          if Provider repoInfo = GitHub then DeleteGitHubReleases w repoInfo s9
          else if Provider repoInfo = GitLab then DeleteGitLabReleases w repoInfo s9
          else (Some (Errorf ''unsupported git provider'' []), s9))"

text \<open>\<^verbatim>\<open>ResetRepo\<close> from the change into the workspace to the dry-run checkpoint (lines 69 to
  135), followed by the remote part.  The result of \<^verbatim>\<open>os.Chdir(repoInfo.RepoName)\<close> is
  dropped, as in the source.\<close>

definition ResetRepo_steps :: "world \<Rightarrow> RepoInfo \<Rightarrow> string \<Rightarrow> path \<Rightarrow> state \<Rightarrow> error option \<times> state" where
  "ResetRepo_steps w repoInfo commitMessage tmpPath s =
     (case Chdir_call w tmpPath s of
        (Some err, s1) \<Rightarrow>
          (Some (Errorf ''failed to change to temporary directory: %v'' [ArgV err]), s1)
      | (None, s1) \<Rightarrow>
     (let s2 = emit [Println (Render info ''Cloning repository: git clone %s''
                               [ArgS (cloneURL repoInfo)])] s1 in
      case RunGitCommandWithOutput w [''clone'', cloneURL repoInfo] s2 of
        (Some err, s3) \<Rightarrow> (Some (Errorf ''failed to clone repository: %v'' [ArgV err]), s3)
      | (None, s3) \<Rightarrow>
     (let s4 = snd (Chdir_call w (resolve (cwd s3) (RepoName repoInfo)) s3) in
      case run_gitOperations w (gitOperations commitMessage) s4 of
        (Some err, s5) \<Rightarrow> (Some err, s5)
      | (None, s5) \<Rightarrow>
     (case GetGitTags w s5 of
        (Inl err, s6) \<Rightarrow> (Some (Errorf ''failed to list tags: %v'' [ArgV err]), s6)
      | (Inr tags, s6) \<Rightarrow>
     (let s7 = (if length tags > 0
                then delete_local_tags w tags
                       (emit [Println (Render info ''Found %d tags to delete''
                                [ArgD (int (length tags))])] s6)
                else emit [Println (Render info ''No local tags found'' [])] s6) in
      if DryRun repoInfo
      then (None,
            emit ((if length tags > 0
                   then [Printf (Render info ''\<newline>Would delete %d remote tags: %v\<newline>'' [])
                           [ArgD (int (length tags)), ArgL tags]]
                   else []) @
                  [Println (Render info ''Would execute: git push -f origin main'' [])]) s7)
      else ResetRepo_remote w repoInfo tags s7)))))"

text \<open>\<^verbatim>\<open>ResetRepo\<close>: the workspace is prepared (lines 60 to 66), its removal is deferred (line
  67), and the deferred call runs when the function returns or panics; its result is
  dropped.\<close>

definition ResetRepo :: "world \<Rightarrow> RepoInfo \<Rightarrow> string \<Rightarrow> state \<Rightarrow> error option \<times> state" where
  "ResetRepo w repoInfo commitMessage s =
     (let tmpPath = os_TempDir w @ [''git-tmp''] in
      case RemoveAll_call (os_RemoveAll w) tmpPath s of
        (Some err, s1) \<Rightarrow>
          (Some (Errorf ''failed to remove existing temporary directory: %v'' [ArgV err]), s1)
      | (None, s1) \<Rightarrow>
     (case MkdirAll_call w tmpPath s1 of
        (Some err, s2) \<Rightarrow>
          (Some (Errorf ''failed to create temporary directory: %v'' [ArgV err]), s2)
      | (None, s2) \<Rightarrow>
     (case ResetRepo_steps w repoInfo commitMessage tmpPath s2 of
        (result, s3) \<Rightarrow>
          (result, snd (RemoveAll_call (os_RemoveAll_deferred w) tmpPath s3)))))"

subsection \<open>The prompts of the user-interface file\<close>

definition InitialCommitModel :: CommitModel where
  "InitialCommitModel = \<lparr>TextInput = [], Err = None, Commit_Done = False\<rparr>"

definition PromptCommitMessage :: "world \<Rightarrow> state \<Rightarrow> (string \<times> error option) \<times> state" where
  "PromptCommitMessage w s =
     (let s1 = emit [TeaRun (CommitM InitialCommitModel)] s in
      case tea_Run w (CommitM InitialCommitModel) of
        Inl err \<Rightarrow> (([], Some err), s1)
      | Inr m \<Rightarrow>
          (case m of
             CommitM model \<Rightarrow>
               if \<not> Commit_Done model then (([], None), s1)
               else ((TextInput model, None), s1)
           | _ \<Rightarrow> (([], None), s1)))"

definition PromptConfirmation :: "world \<Rightarrow> bool \<Rightarrow> state \<Rightarrow> (bool \<times> error option) \<times> state" where
  "PromptConfirmation w dryRun s =
     (let question =
            (if dryRun
             then ''GoresetIT will simulate squashing all commits on main branch (DRY RUN).\<newline>'' @
                  ''This operation will perform all local operations but won't push any changes.\<newline>'' @
                  ''Are you sure you want to continue?''
             else ''GoresetIT will squash all commits on main branch.\<newline>'' @
                  ''THIS IS A DESTRUCTIVE OPERATION AND CANNOT BE UNDONE!\<newline>'' @
                  ''Are you sure you want to continue?'');
          model = \<lparr>Question = question, Confirm_Done = False, Answer = False\<rparr>;
          s1 = emit [TeaRun (ConfirmM model)] s in
      case tea_Run w (ConfirmM model) of
        Inl err \<Rightarrow> ((False, Some err), s1)
      | Inr m \<Rightarrow>
          (case m of
             ConfirmM finalModel \<Rightarrow> ((Answer finalModel, None), s1)
           | _ \<Rightarrow> ((False, None), s1)))"

subsection \<open>\<^verbatim>\<open>main.go\<close>\<close>

definition defaultCommitMsg :: string where
  "defaultCommitMsg = ''Initial commit''"

text \<open>
  \<^verbatim>\<open>main\<close> from its first line to the line before the call of \<^verbatim>\<open>ResetRepo\<close> (lines 89 to
  172), given the flags that \<^verbatim>\<open>parseFlags\<close> returned.  The result is \<open>Inl code\<close> when the
  program ends there by \<^verbatim>\<open>os.Exit(code)\<close>, and otherwise \<open>Inr\<close> of the two arguments with
  which \<^verbatim>\<open>ResetRepo\<close> is called next.
\<close>

definition main_until_reset :: "world \<Rightarrow> CommandLineFlags \<Rightarrow> state \<Rightarrow> (int + RepoInfo \<times> string) \<times> state" where
  "main_until_reset w flags s =
     (let s0 = emit [ShowLogo] s in
      if flag_RepoPath flags = [] \<or> flag_Token flags = []
      then (Inl 1, emit [Println (Render errorStyle ''Error: Missing required arguments.'' []),
                         Usage] s0)
      else
     (let parts = Split (flag_RepoPath flags) (CHR ''/'') in
      if length parts < 2
      then (Inl 1, emit [Println (Render errorStyle
                           ''Error: Invalid repository format. Please use full path format (e.g., owner/repo or group/subgroup/repo).'' []),
                         Usage] s0)
      else
     (let repoName = parts ! (length parts - 1);
          fullPath = Join (take (length parts - 1) parts) ''/'';
          repoInfo = \<lparr>Provider = 0, FullPath = fullPath, RepoName = repoName,
                      Token = flag_Token flags, GitLabURL = [], DryRun = flag_DryRun flags\<rparr>;
          provider = ToLower w (flag_Provider flags) in
      if provider \<noteq> ''github'' \<and> provider \<noteq> ''gitlab''
      then (Inl 1, emit [Println (Render errorStyle
                           ''Error: Invalid provider. Use 'github' or 'gitlab'.'' [])] s0)
      else
     (let repoInfo = (if provider = ''github'' then repoInfo\<lparr>Provider := GitHub\<rparr>
                      else repoInfo\<lparr>Provider := GitLab, GitLabURL := flag_GitLabURL flags\<rparr>);
          commitMessage = (if flag_CommitMsg flags \<noteq> [] then flag_CommitMsg flags
                           else if flag_NoInteractive flags then defaultCommitMsg
                           else []);
          s1 = (if flag_CommitMsg flags \<noteq> []
                then emit [Printf (Render info ''Using provided commit message: '%s'\<newline>'' [])
                             [ArgS commitMessage]] s0
                else if flag_NoInteractive flags
                then emit [Printf (Render info ''Using default commit message: '%s'\<newline>'' [])
                             [ArgS commitMessage]] s0
                else s0) in
      if \<not> flag_NoInteractive flags
      then
        (case PromptConfirmation w (flag_DryRun flags) s1 of
           ((confirmed, Some err), s2) \<Rightarrow>
             (Inl 1, emit [Println (Render errorStyle ''Error during confirmation:'' [ArgV err])] s2)
         | ((confirmed, None), s2) \<Rightarrow>
             if \<not> confirmed
             then (Inl 0, emit [Println (Render info ''Operation cancelled by user'' [])] s2)
             else if commitMessage = []
             then
               (case PromptCommitMessage w s2 of
                  ((message, Some err), s3) \<Rightarrow>
                    (Inl 1, emit [Println (Render errorStyle ''Error getting commit message:''
                                    [ArgV err])] s3)
                | ((message, None), s3) \<Rightarrow>
                    if message = []
                    then (Inl 0, emit [Println (Render info ''Operation cancelled by user'' [])] s3)
                    else (Inr (repoInfo, message), s3))
             else (Inr (repoInfo, commitMessage), s2))
      else
        (Inr (repoInfo, commitMessage),
         emit [if flag_DryRun flags
               then Println (Render warning
                      ''DRY RUN: Will simulate squashing all commits on main branch'' [])
               else Println (Render warning
                      ''WARNING: Will squash all commits on main branch (no interactive confirmation requested)'' [])]
           s1)))))"

text \<open>A panic that leaves \<^verbatim>\<open>ResetRepo\<close> is no error value: it ends the program, with the exit
  status 2 of the Go run time.\<close>

definition is_panic :: "error \<Rightarrow> bool" where
  "is_panic err = (err = NilPointerPanic \<or> err = IndexPanic)"

text \<open>\<^verbatim>\<open>main\<close>: the exit status of the program and its final state.\<close>

definition main :: "world \<Rightarrow> CommandLineFlags \<Rightarrow> state \<Rightarrow> int \<times> state" where
  "main w flags s =
     (case main_until_reset w flags s of
        (Inl code, s1) \<Rightarrow> (code, s1)
      | (Inr (repoInfo, commitMessage), s1) \<Rightarrow>
          (case ResetRepo w repoInfo commitMessage s1 of
             (Some err, s2) \<Rightarrow>
               if is_panic err then (2, s2)
               else (1, emit [Println (Render errorStyle ''Error:'' [ArgV err])] s2)
           | (None, s2) \<Rightarrow>
               (0, if flag_DryRun flags
                   then emit [Println (Render info
                                ''\<newline>Dry run completed. No changes were pushed to remote.'' [])] s2
                   else emit [Printf (Render success
                                ''\<newline>Repository %s/%s has been reset with message: '%s'\<newline>'' [])
                                [ArgS (FullPath repoInfo), ArgS (RepoName repoInfo),
                                 ArgS commitMessage],
                              Println (Render success
                                ''All tags and releases have been deleted.'' [])] s2)))"

subsection \<open>Reading a trace\<close>

text \<open>The argument lists of the git commands of a trace, the identifiers of the GitHub
  releases whose deletion it asks for, and the tags of the GitLab releases whose deletion it
  asks for, each in the order of the calls.\<close>

fun git_calls :: "event list \<Rightarrow> string list list" where
  "git_calls [] = []"
| "git_calls (Git args # es) = args # git_calls es"
| "git_calls (e # es) = git_calls es"

fun github_deletes :: "event list \<Rightarrow> int list" where
  "github_deletes [] = []"
| "github_deletes (GitHub_DeleteRelease owner repo i # es) = i # github_deletes es"
| "github_deletes (e # es) = github_deletes es"

fun gitlab_deletes :: "event list \<Rightarrow> string list" where
  "gitlab_deletes [] = []"
| "gitlab_deletes (GitLab_DeleteRelease fullPath tag # es) = tag # gitlab_deletes es"
| "gitlab_deletes (e # es) = gitlab_deletes es"

text \<open>The calls of a provider API among the events.\<close>

definition is_api_call :: "event \<Rightarrow> bool" where
  "is_api_call e =
     (case e of
        GitHub_ListReleases owner repo \<Rightarrow> True
      | GitHub_DeleteRelease owner repo i \<Rightarrow> True
      | GitLab_ListReleases fullPath \<Rightarrow> True
      | GitLab_DeleteRelease fullPath tag \<Rightarrow> True
      | _ \<Rightarrow> False)"

subsection \<open>Concrete worlds\<close>

text \<open>A world in which every call succeeds, git prints nothing, there are no tags and no
  releases, and every prompt returns its initial model; a process that starts in \<^verbatim>\<open>/home\<close>;
  a GitHub repository \<^verbatim>\<open>owner/repo\<close>.\<close>

definition calm :: world where
  "calm = \<lparr>os_TempDir = [''tmp''], os_RemoveAll = (\<lambda>p. None), os_RemoveAll_deferred = (\<lambda>p. None),
     os_MkdirAll = (\<lambda>p. None), os_Chdir = (\<lambda>p. None), git = (\<lambda>args. ([], None)),
     github_ListReleases = (\<lambda>token owner repo. Inr []),
     github_DeleteRelease = (\<lambda>token owner repo i. None),
     gitlab_NewClient = (\<lambda>token url. None),
     gitlab_ListReleases = (\<lambda>token url fullPath. Inr []),
     gitlab_DeleteRelease = (\<lambda>token url fullPath tag. None),
     tea_Run = (\<lambda>m. Inr m), ToLower = (\<lambda>s. s)\<rparr>"

definition start :: state where
  "start = \<lparr>trace = [], cwd = [''home''], gone = []\<rparr>"

definition owner_repo :: RepoInfo where
  "owner_repo = \<lparr>Provider = GitHub, FullPath = ''owner'', RepoName = ''repo'', Token = ''token'',
     GitLabURL = [], DryRun = False\<rparr>"

text \<open>A GitLab project \<^verbatim>\<open>team/sub/proj\<close> on a self-managed instance.\<close>

definition team_proj :: RepoInfo where
  "team_proj = \<lparr>Provider = GitLab, FullPath = ''team/sub'', RepoName = ''proj'', Token = ''token'',
     GitLabURL = ''https://gitlab.example.com'', DryRun = False\<rparr>"

text \<open>The repository has no branch \<^verbatim>\<open>main\<close>: \<^verbatim>\<open>git branch -D main\<close> fails.\<close>

definition no_main_branch :: world where
  "no_main_branch = calm\<lparr>git := (\<lambda>args.
     if args = [''branch'', ''-D'', ''main'']
     then (''error: branch 'main' not found.'', Some (External ''exit status 1''))
     else ([], None))\<rparr>"

text \<open>Two tags and one release on GitHub; the flags of a non-interactive dry run
  (\<^verbatim>\<open>-r owner/repo -t token -d -n\<close>).\<close>

definition tagged_release :: world where
  "tagged_release = calm\<lparr>
     git := (\<lambda>args. if args = [''tag''] then (''v1.0.0\<newline>v1.1.0\<newline>'', None) else ([], None)),
     github_ListReleases := (\<lambda>token owner repo.
       Inr [\<lparr>gh_ID = Some 1, gh_Name = Some ''First'', gh_TagName = Some ''v1.0.0''\<rparr>])\<rparr>"

definition dry_flags :: CommandLineFlags where
  "dry_flags = \<lparr>flag_RepoPath = ''owner/repo'', flag_Token = ''token'', flag_Provider = ''github'',
     flag_GitLabURL = ''https://gitlab.com'', flag_DryRun = True, flag_NoInteractive = True,
     flag_CommitMsg = []\<rparr>"

text \<open>The clone fails.\<close>

definition clone_fails :: world where
  "clone_fails = calm\<lparr>git := (\<lambda>args.
     if args = [''clone'', ''https://github.com/owner/repo.git'']
     then (''fatal: repository not found'', Some (External ''exit status 128''))
     else ([], None))\<rparr>"

text \<open>Three tags, and the remote deletion of the second one fails.\<close>

definition three_tags :: world where
  "three_tags = calm\<lparr>git := (\<lambda>args.
     if args = [''tag''] then (''v1\<newline>v2\<newline>v3\<newline>'', None)
     else if args = [''push'', ''origin'', ''--delete'', ''refs/tags/v2'']
     then (''error: unable to delete'', Some (External ''exit status 1''))
     else ([], None))\<rparr>"

text \<open>Both providers fail to list the releases.\<close>

definition down :: world where
  "down = calm\<lparr>
     github_ListReleases := (\<lambda>token owner repo. Inl (External ''503 Service Unavailable'')),
     gitlab_ListReleases := (\<lambda>token url fullPath. Inl (Some 503, External ''503 Service Unavailable''))\<rparr>"

text \<open>Three releases at each provider, and the deletion of the second one is refused.\<close>

definition flaky :: world where
  "flaky = calm\<lparr>
     github_ListReleases := (\<lambda>token owner repo.
       Inr [\<lparr>gh_ID = Some 1, gh_Name = Some ''one'', gh_TagName = Some ''v1''\<rparr>,
            \<lparr>gh_ID = Some 2, gh_Name = Some ''two'', gh_TagName = Some ''v2''\<rparr>,
            \<lparr>gh_ID = Some 3, gh_Name = Some ''three'', gh_TagName = Some ''v3''\<rparr>]),
     github_DeleteRelease := (\<lambda>token owner repo i.
       if i = 2 then Some (External ''403 Forbidden'') else None),
     gitlab_ListReleases := (\<lambda>token url fullPath.
       Inr [\<lparr>gl_Name = ''one'', gl_TagName = ''v1''\<rparr>,
            \<lparr>gl_Name = ''two'', gl_TagName = ''v2''\<rparr>,
            \<lparr>gl_Name = ''three'', gl_TagName = ''v3''\<rparr>]),
     gitlab_DeleteRelease := (\<lambda>token url fullPath tag.
       if tag = ''v2'' then Some (Some 403, External ''403 Forbidden'') else None)\<rparr>"

text \<open>The user confirms and types a commit message; the flags of an interactive run without
  a message.\<close>

definition typing :: world where
  "typing = calm\<lparr>tea_Run := (\<lambda>m.
     case m of
       CommitM c \<Rightarrow> Inr (CommitM (c\<lparr>TextInput := ''fresh start'', Commit_Done := True\<rparr>))
     | ConfirmM c \<Rightarrow> Inr (ConfirmM (c\<lparr>Confirm_Done := True, Answer := True\<rparr>))
     | OtherModel \<Rightarrow> Inr OtherModel)\<rparr>"

definition asking_flags :: CommandLineFlags where
  "asking_flags = \<lparr>flag_RepoPath = ''owner/repo'', flag_Token = ''token'', flag_Provider = ''github'',
     flag_GitLabURL = ''https://gitlab.com'', flag_DryRun = False, flag_NoInteractive = False,
     flag_CommitMsg = []\<rparr>"

section \<open>Properties\<close>

subsection \<open>Reading traces; what each function leaves unchanged\<close>

lemma git_calls_append [simp]: "git_calls (xs @ ys) = git_calls xs @ git_calls ys"
  by (induction xs rule: git_calls.induct) simp_all

lemma github_deletes_append [simp]: "github_deletes (xs @ ys) = github_deletes xs @ github_deletes ys"
  by (induction xs rule: github_deletes.induct) simp_all

lemma gitlab_deletes_append [simp]: "gitlab_deletes (xs @ ys) = gitlab_deletes xs @ gitlab_deletes ys"
  by (induction xs rule: gitlab_deletes.induct) simp_all

lemma trace_emit [simp]: "trace (emit es s) = trace s @ es"
  and cwd_emit [simp]: "cwd (emit es s) = cwd s"
  and gone_emit [simp]: "gone (emit es s) = gone s"
  by (simp_all add: emit_def)

lemma RemoveAll_call_trace [simp]: "trace (snd (RemoveAll_call a p s)) = trace s @ [RemoveAll p]"
  and RemoveAll_call_cwd [simp]: "cwd (snd (RemoveAll_call a p s)) = cwd s"
  and RemoveAll_call_fst [simp]: "fst (RemoveAll_call a p s) = a p"
  by (simp_all add: RemoveAll_call_def split: option.splits)

lemma MkdirAll_call_trace [simp]: "trace (snd (MkdirAll_call w p s)) = trace s @ [MkdirAll p]"
  and MkdirAll_call_cwd [simp]: "cwd (snd (MkdirAll_call w p s)) = cwd s"
  and MkdirAll_call_fst [simp]: "fst (MkdirAll_call w p s) = os_MkdirAll w p"
  by (simp_all add: MkdirAll_call_def split: option.splits)

lemma Chdir_call_trace [simp]: "trace (snd (Chdir_call w p s)) = trace s @ [Chdir p]"
  and Chdir_call_cwd: "cwd (snd (Chdir_call w p s)) = (if os_Chdir w p = None then p else cwd s)"
  and Chdir_call_fst [simp]: "fst (Chdir_call w p s) = os_Chdir w p"
  by (simp_all add: Chdir_call_def split: option.splits)

lemma is_api_call_simps [simp]:
  "is_api_call (RemoveAll p) = False"
  "is_api_call (MkdirAll p) = False"
  "is_api_call (Chdir p) = False"
  "is_api_call (Git args) = False"
  "is_api_call (Print out) = False"
  "is_api_call (Println x) = False"
  "is_api_call (Printf x xs) = False"
  "is_api_call (GitHub_ListReleases owner repo) = True"
  "is_api_call (GitHub_DeleteRelease owner repo i) = True"
  "is_api_call (GitLab_ListReleases fullPath) = True"
  "is_api_call (GitLab_DeleteRelease fullPath tag) = True"
  "is_api_call (TeaRun tm) = False"
  "is_api_call ShowLogo = False"
  "is_api_call Usage = False"
  by (simp_all add: is_api_call_def)

lemma RunGit_fst:
  "fst (RunGitCommandWithOutput w args s) =
     (case snd (git w args) of None \<Rightarrow> None
      | Some err \<Rightarrow> Some (CommandError (''git '' @ Join args '' '') (fst (git w args)) err))"
  by (simp add: RunGitCommandWithOutput_def split: prod.splits option.splits)

lemma RunGit_cwd [simp]: "cwd (snd (RunGitCommandWithOutput w args s)) = cwd s"
  and RunGit_gone [simp]: "gone (snd (RunGitCommandWithOutput w args s)) = gone s"
  and RunGit_calls [simp]: "git_calls (trace (snd (RunGitCommandWithOutput w args s))) = git_calls (trace s) @ [args]"
  and RunGit_mono: "set (trace s) \<subseteq> set (trace (snd (RunGitCommandWithOutput w args s)))"
  and RunGit_github [simp]: "github_deletes (trace (snd (RunGitCommandWithOutput w args s))) = github_deletes (trace s)"
  and RunGit_gitlab [simp]: "gitlab_deletes (trace (snd (RunGitCommandWithOutput w args s))) = gitlab_deletes (trace s)"
  by (auto simp: RunGitCommandWithOutput_def split: prod.splits option.splits)

lemma RunGit_mem: "Git args \<in> set (trace (snd (RunGitCommandWithOutput w args s)))"
  by (simp add: RunGitCommandWithOutput_def split: prod.splits option.splits)

lemma RunGit_keeps: "e \<in> set (trace s) \<Longrightarrow> e \<in> set (trace (snd (RunGitCommandWithOutput w args s)))"
  using RunGit_mono by blast

lemma RunGit_api [simp]:
  "filter is_api_call (trace (snd (RunGitCommandWithOutput w args s))) = filter is_api_call (trace s)"
  by (simp add: RunGitCommandWithOutput_def split: prod.splits option.splits)

subsection \<open>The tag enumerator\<close>

lemma TrimSpace_Nil: "TrimSpace [] = []"
  by (simp add: TrimSpace_def TrimLeft.simps TrimRight.simps leading_space_def trailing_space_def space_runes_def)

lemma Split_not_Nil: "Split s c \<noteq> []"
  by (induction s) (auto split: list.splits)

lemma GetGitTags_never_empty_name: "fst (GetGitTags w s) \<noteq> Inr [[]]"
  by (auto simp: GetGitTags_def Let_def split: prod.splits option.splits)

lemma GetGitTags_cwd [simp]: "cwd (snd (GetGitTags w s)) = cwd s"
  and GetGitTags_gone [simp]: "gone (snd (GetGitTags w s)) = gone s"
  and GetGitTags_calls [simp]: "git_calls (trace (snd (GetGitTags w s))) = git_calls (trace s) @ [[''tag'']]"
  and GetGitTags_mono: "e \<in> set (trace s) \<Longrightarrow> e \<in> set (trace (snd (GetGitTags w s)))"
  by (auto simp: GetGitTags_def Let_def split: prod.splits option.splits)

lemma GetGitTags_fst: "fst (GetGitTags w s) = fst (GetGitTags w s')"
  by (auto simp: GetGitTags_def Let_def split: prod.splits option.splits)

lemma GetGitTags_api [simp]:
  "filter is_api_call (trace (snd (GetGitTags w s))) = filter is_api_call (trace s)"
  by (simp add: GetGitTags_def Let_def split: prod.splits option.splits)

lemma tags_eval: "Split (TrimSpace ''v1.0.0\<newline>v1.1.0\<newline>'') (CHR ''\<newline>'') = [''v1.0.0'', ''v1.1.0'']"
  by code_simp

lemma three_tags_eval:
  "Split (TrimSpace ''v1\<newline>v2\<newline>v3\<newline>'') (CHR ''\<newline>'') = [''v1'', ''v2'', ''v3'']"
  by code_simp

subsection \<open>The loops of the workflow\<close>

lemma ops_cwd [simp]: "cwd (snd (run_gitOperations w ops s)) = cwd s"
proof (induction ops arbitrary: s)
  case Nil
  show ?case by simp
next
  case (Cons op ops)
  obtain desc args where op: "op = (desc, args)" by (cases op)
  show ?case
    by (simp add: op Let_def case_prod_beta Cons split: option.splits list.splits)
qed

lemma ops_gone [simp]: "gone (snd (run_gitOperations w ops s)) = gone s"
proof (induction ops arbitrary: s)
  case Nil
  show ?case by simp
next
  case (Cons op ops)
  obtain desc args where op: "op = (desc, args)" by (cases op)
  show ?case
    by (simp add: op Let_def case_prod_beta Cons split: option.splits list.splits)
qed

lemma ops_keeps: "e \<in> set (trace s) \<Longrightarrow> e \<in> set (trace (snd (run_gitOperations w ops s)))"
proof (induction ops arbitrary: s)
  case Nil
  then show ?case by simp
next
  case (Cons op ops)
  obtain desc args where op: "op = (desc, args)" by (cases op)
  let ?s1 = "emit [Println (Render info ''Executing: git %s'' [ArgS (Join args '' '')])] s"
  from Cons.prems have "e \<in> set (trace ?s1)" by simp
  then have "e \<in> set (trace (snd (RunGitCommandWithOutput w args ?s1)))" by (rule RunGit_keeps)
  then show ?case
    by (cases args) (simp_all add: op Let_def case_prod_beta Cons.IH split: option.splits)
qed

lemma ops_succeed:
  "\<forall>op \<in> set ops. snd (git w (snd op)) = None \<Longrightarrow>
   fst (run_gitOperations w ops s) = None \<and>
   git_calls (trace (snd (run_gitOperations w ops s))) = git_calls (trace s) @ map snd ops"
proof (induction ops arbitrary: s)
  case Nil
  show ?case by simp
next
  case (Cons op ops)
  obtain desc args where op: "op = (desc, args)" by (cases op)
  from Cons.prems have ok: "snd (git w args) = None" and rest: "\<forall>op \<in> set ops. snd (git w (snd op)) = None"
    by (simp_all add: op)
  show ?case
    by (simp add: op ok Let_def case_prod_beta RunGit_fst Cons.IH [OF rest])
qed

lemma ops_api [simp]:
  "filter is_api_call (trace (snd (run_gitOperations w ops s))) = filter is_api_call (trace s)"
proof (induction ops arbitrary: s)
  case Nil
  show ?case by simp
next
  case (Cons op ops)
  obtain desc args where op: "op = (desc, args)" by (cases op)
  show ?case
    by (simp add: op Let_def case_prod_beta Cons split: option.splits list.splits)
qed

lemma local_cwd [simp]: "cwd (delete_local_tags w tags s) = cwd s"
  by (induction tags arbitrary: s) (simp_all add: Let_def case_prod_beta split: option.splits)

lemma local_gone [simp]: "gone (delete_local_tags w tags s) = gone s"
  by (induction tags arbitrary: s) (simp_all add: Let_def case_prod_beta split: option.splits)

lemma local_calls [simp]:
  "git_calls (trace (delete_local_tags w tags s)) = git_calls (trace s) @ map (\<lambda>t. [''tag'', ''-d'', t]) tags"
  by (induction tags arbitrary: s) (simp_all add: Let_def case_prod_beta split: option.splits)

lemma local_mono: "set (trace s) \<subseteq> set (trace (delete_local_tags w tags s))"
proof (induction tags arbitrary: s)
  case Nil
  show ?case by simp
next
  case (Cons t ts)
  show ?case
    using RunGit_mono [of "emit [Println (Render info ''Removing local tag: %s'' [ArgS t])] s" w "[''tag'', ''-d'', t]"]
      Cons [of "snd (RunGitCommandWithOutput w [''tag'', ''-d'', t] (emit [Println (Render info ''Removing local tag: %s'' [ArgS t])] s))"]
      Cons [of "emit [Println (Render warning ''Warning: Failed to delete local tag %s: %v''
                     [ArgS t, ArgV (the (fst (RunGitCommandWithOutput w [''tag'', ''-d'', t] (emit [Println (Render info ''Removing local tag: %s'' [ArgS t])] s))))])]
             (snd (RunGitCommandWithOutput w [''tag'', ''-d'', t] (emit [Println (Render info ''Removing local tag: %s'' [ArgS t])] s)))"]
    by (auto simp: Let_def case_prod_beta split: option.splits)
qed

lemma local_keeps: "e \<in> set (trace s) \<Longrightarrow> e \<in> set (trace (delete_local_tags w tags s))"
  using local_mono by blast

lemma local_api [simp]:
  "filter is_api_call (trace (delete_local_tags w tags s)) = filter is_api_call (trace s)"
  by (induction tags arbitrary: s)
     (simp_all add: Let_def case_prod_beta split: option.splits)

lemma remote_cwd [simp]: "cwd (delete_remote_tags w tags s) = cwd s"
  by (induction tags arbitrary: s) (simp_all add: Let_def case_prod_beta split: option.splits)

lemma remote_gone [simp]: "gone (delete_remote_tags w tags s) = gone s"
  by (induction tags arbitrary: s) (simp_all add: Let_def case_prod_beta split: option.splits)

lemma remote_calls [simp]:
  "git_calls (trace (delete_remote_tags w tags s)) =
     git_calls (trace s) @ map (\<lambda>t. [''push'', ''origin'', ''--delete'', ''refs/tags/'' @ t]) tags"
  by (induction tags arbitrary: s) (simp_all add: Let_def case_prod_beta split: option.splits)

lemma remote_mono: "e \<in> set (trace s) \<Longrightarrow> e \<in> set (trace (delete_remote_tags w tags s))"
proof (induction tags arbitrary: s)
  case Nil
  then show ?case by simp
next
  case (Cons t ts)
  let ?run = "RunGitCommandWithOutput w [''push'', ''origin'', ''--delete'', ''refs/tags/'' @ t] s"
  from Cons.prems RunGit_mono have "e \<in> set (trace (snd ?run))" by blast
  then show ?case
    by (auto simp: case_prod_beta split: option.splits intro!: Cons.IH)
qed

lemma remote_warned:
  "t \<in> set tags \<Longrightarrow> git w [''push'', ''origin'', ''--delete'', ''refs/tags/'' @ t] = (out, Some err) \<Longrightarrow>
   Println (Render warning ''Warning: Failed to delete remote tag %s: %v''
     [ArgS t, ArgV (CommandError (''git push origin --delete refs/tags/'' @ t) out err)])
     \<in> set (trace (delete_remote_tags w tags s))"
proof (induction tags arbitrary: s)
  case Nil
  then show ?case by simp
next
  case (Cons a ts)
  show ?case
  proof (cases "t = a")
    case True
    with Cons.prems(2) show ?thesis
      by (auto simp: RunGit_fst case_prod_beta split: option.splits intro!: remote_mono)
  next
    case False
    with Cons.prems have "t \<in> set ts" by simp
    then have "\<And>s'. Println (Render warning ''Warning: Failed to delete remote tag %s: %v''
        [ArgS t, ArgV (CommandError (''git push origin --delete refs/tags/'' @ t) out err)])
        \<in> set (trace (delete_remote_tags w ts s'))"
      using Cons.prems(2) by (rule Cons.IH)
    then show ?thesis
      by (simp add: case_prod_beta split: option.splits)
  qed
qed

subsection \<open>Release cleanup\<close>

lemma gh_report_cwd [simp]: "cwd (snd (github_report_releases rs s)) = cwd s"
  and gh_report_gone [simp]: "gone (snd (github_report_releases rs s)) = gone s"
  and gh_report_calls [simp]: "git_calls (trace (snd (github_report_releases rs s))) = git_calls (trace s)"
  by (induction rs s rule: github_report_releases.induct; simp split: option.splits)+

lemma gh_delete_cwd [simp]: "cwd (snd (github_delete_releases w r rs s)) = cwd s"
  and gh_delete_gone [simp]: "gone (snd (github_delete_releases w r rs s)) = gone s"
  and gh_delete_calls [simp]: "git_calls (trace (snd (github_delete_releases w r rs s))) = git_calls (trace s)"
  by (induction w r rs s rule: github_delete_releases.induct; simp add: Let_def split: option.splits)+

lemma gl_report_cwd [simp]: "cwd (gitlab_report_releases rs s) = cwd s"
  and gl_report_gone [simp]: "gone (gitlab_report_releases rs s) = gone s"
  and gl_report_calls [simp]: "git_calls (trace (gitlab_report_releases rs s)) = git_calls (trace s)"
  by (induction rs s rule: gitlab_report_releases.induct; simp)+

lemma gl_delete_cwd [simp]: "cwd (gitlab_delete_releases w r p rs s) = cwd s"
  and gl_delete_gone [simp]: "gone (gitlab_delete_releases w r p rs s) = gone s"
  and gl_delete_calls [simp]: "git_calls (trace (gitlab_delete_releases w r p rs s)) = git_calls (trace s)"
  by (induction w r p rs s rule: gitlab_delete_releases.induct; simp add: Let_def split: option.splits prod.splits)+

lemma DeleteGitHubReleases_cwd [simp]: "cwd (snd (DeleteGitHubReleases w r s)) = cwd s"
  and DeleteGitHubReleases_gone [simp]: "gone (snd (DeleteGitHubReleases w r s)) = gone s"
  and DeleteGitHubReleases_calls [simp]: "git_calls (trace (snd (DeleteGitHubReleases w r s))) = git_calls (trace s)"
  by (simp_all add: DeleteGitHubReleases_def Let_def split: sum.splits)

lemma DeleteGitLabReleases_cwd [simp]: "cwd (snd (DeleteGitLabReleases w r s)) = cwd s"
  and DeleteGitLabReleases_gone [simp]: "gone (snd (DeleteGitLabReleases w r s)) = gone s"
  and DeleteGitLabReleases_calls [simp]: "git_calls (trace (snd (DeleteGitLabReleases w r s))) = git_calls (trace s)"
  by (simp_all add: DeleteGitLabReleases_def Let_def split: sum.splits option.splits prod.splits)

lemma gh_report_mono: "e \<in> set (trace s) \<Longrightarrow> e \<in> set (trace (snd (github_report_releases rs s)))"
  by (induction rs s rule: github_report_releases.induct) (simp_all split: option.splits)

lemma gh_delete_mono: "e \<in> set (trace s) \<Longrightarrow> e \<in> set (trace (snd (github_delete_releases w r rs s)))"
  by (induction w r rs s rule: github_delete_releases.induct) (simp_all add: Let_def split: option.splits)

lemma gl_report_mono: "e \<in> set (trace s) \<Longrightarrow> e \<in> set (trace (gitlab_report_releases rs s))"
  by (induction rs s rule: gitlab_report_releases.induct) simp_all

lemma gl_delete_mono: "e \<in> set (trace s) \<Longrightarrow> e \<in> set (trace (gitlab_delete_releases w r p rs s))"
  by (induction w r p rs s rule: gitlab_delete_releases.induct) (simp_all add: Let_def split: option.splits prod.splits)

lemma DeleteGitHubReleases_mono: "e \<in> set (trace s) \<Longrightarrow> e \<in> set (trace (snd (DeleteGitHubReleases w r s)))"
  by (simp add: DeleteGitHubReleases_def Let_def gh_report_mono gh_delete_mono split: sum.splits)

lemma DeleteGitLabReleases_mono: "e \<in> set (trace s) \<Longrightarrow> e \<in> set (trace (snd (DeleteGitLabReleases w r s)))"
  by (simp add: DeleteGitLabReleases_def Let_def gl_report_mono gl_delete_mono split: sum.splits option.splits prod.splits)

lemma gh_delete_all:
  assumes "\<forall>x \<in> set rs. gh_ID x \<noteq> None \<and> gh_Name x \<noteq> None"
  shows "fst (github_delete_releases w r rs s) = None \<and>
         github_deletes (trace (snd (github_delete_releases w r rs s))) =
           github_deletes (trace s) @ map (\<lambda>x. the (gh_ID x)) rs"
  using assms
proof (induction rs arbitrary: s)
  case Nil
  show ?case by simp
next
  case (Cons x rs)
  then obtain i n where x: "gh_ID x = Some i" "gh_Name x = Some n" by auto
  from Cons.prems have rest: "\<forall>x \<in> set rs. gh_ID x \<noteq> None \<and> gh_Name x \<noteq> None" by simp
  show ?case
    by (simp add: x Let_def Cons.IH [OF rest] split: option.splits)
qed

lemma gh_delete_warned:
  assumes "\<forall>x \<in> set rs. gh_ID x \<noteq> None \<and> gh_Name x \<noteq> None"
    and "x \<in> set rs"
    and "github_DeleteRelease w (Token r) (FullPath r) (RepoName r) (the (gh_ID x)) = Some err"
  shows "Println (Render warning ''Warning: Failed to delete release %d: %v''
           [ArgD (the (gh_ID x)), ArgV err]) \<in> set (trace (snd (github_delete_releases w r rs s)))"
  using assms(1,2)
proof (induction rs arbitrary: s)
  case Nil
  then show ?case by simp
next
  case (Cons y rs)
  then obtain i n where y: "gh_ID y = Some i" "gh_Name y = Some n" by auto
  from Cons.prems have rest: "\<forall>x \<in> set rs. gh_ID x \<noteq> None \<and> gh_Name x \<noteq> None" by simp
  show ?case
  proof (cases "x = y")
    case True
    with assms(3) y show ?thesis
      by (simp add: Let_def gh_delete_mono)
  next
    case False
    with Cons.prems have "x \<in> set rs" by simp
    with rest have "\<And>s'. Println (Render warning ''Warning: Failed to delete release %d: %v''
           [ArgD (the (gh_ID x)), ArgV err]) \<in> set (trace (snd (github_delete_releases w r rs s')))"
      by (rule Cons.IH)
    then show ?thesis
      by (simp add: y Let_def split: option.splits)
  qed
qed

lemma gl_delete_all:
  "gitlab_deletes (trace (gitlab_delete_releases w r p rs s)) = gitlab_deletes (trace s) @ map gl_TagName rs"
  by (induction rs arbitrary: s) (simp_all add: Let_def split: option.splits prod.splits)

lemma gl_delete_warned:
  assumes "x \<in> set rs"
    and "gitlab_DeleteRelease w (Token r) (GitLabURL r) p (gl_TagName x) = Some (st, err)"
    and e: "e = (case st of
            Some status \<Rightarrow> Println (Render warning ''Warning: Failed to delete release %s (status %d): %v''
                             [ArgS (gl_TagName x), ArgD status, ArgV err])
          | None \<Rightarrow> Println (Render warning ''Warning: Failed to delete release %s: %v''
                             [ArgS (gl_TagName x), ArgV err]))"
  shows "e \<in> set (trace (gitlab_delete_releases w r p rs s))"
  using assms(1)
proof (induction rs arbitrary: s)
  case Nil
  then show ?case by simp
next
  case (Cons y rs)
  show ?case
  proof (cases "x = y")
    case True
    with assms(2) e show ?thesis
      by (cases st) (simp_all add: Let_def gl_delete_mono)
  next
    case False
    with Cons.prems have "x \<in> set rs" by simp
    then have "\<And>s'. e \<in> set (trace (gitlab_delete_releases w r p rs s'))"
      by (rule Cons.IH)
    then show ?thesis
      by (simp add: Let_def split: option.splits prod.splits)
  qed
qed

lemma github_list_fatal:
  "github_ListReleases w (Token r) (FullPath r) (RepoName r) = Inl e \<Longrightarrow>
   DeleteGitHubReleases w r s =
     (Some (Errorf ''failed to list releases: %v'' [ArgV e]),
      emit [GitHub_ListReleases (FullPath r) (RepoName r)] s)"
  by (simp add: DeleteGitHubReleases_def)

lemma gitlab_list_fatal:
  "gitlab_NewClient w (Token r) (GitLabURL r) = None \<Longrightarrow>
   gitlab_ListReleases w (Token r) (GitLabURL r) (FullPath r @ ''/'' @ RepoName r) = Inl (st, e) \<Longrightarrow>
   DeleteGitLabReleases w r s =
     (Some (case st of
              Some status \<Rightarrow> Errorf ''failed to list releases (status %d): %v'' [ArgD status, ArgV e]
            | None \<Rightarrow> Errorf ''failed to list releases: %v'' [ArgV e]),
      emit [GitLab_ListReleases (FullPath r @ ''/'' @ RepoName r)] s)"
  by (simp add: DeleteGitLabReleases_def split: option.splits)

lemma github_delete_tolerant:
  assumes "github_ListReleases w (Token r) (FullPath r) (RepoName r) = Inr rs"
    and "\<not> DryRun r"
    and ok: "\<forall>x \<in> set rs. gh_ID x \<noteq> None \<and> gh_Name x \<noteq> None"
  shows "fst (DeleteGitHubReleases w r s) = None \<and>
         github_deletes (trace (snd (DeleteGitHubReleases w r s))) =
           github_deletes (trace s) @ map (\<lambda>x. the (gh_ID x)) rs \<and>
         (\<forall>x \<in> set rs. \<forall>err.
            github_DeleteRelease w (Token r) (FullPath r) (RepoName r) (the (gh_ID x)) = Some err \<longrightarrow>
            Println (Render warning ''Warning: Failed to delete release %d: %v''
              [ArgD (the (gh_ID x)), ArgV err]) \<in> set (trace (snd (DeleteGitHubReleases w r s))))"
  using assms(1,2) gh_delete_all [OF ok] gh_delete_warned [OF ok]
  by (cases rs) (simp_all add: DeleteGitHubReleases_def Let_def)

lemma gitlab_delete_tolerant:
  assumes "gitlab_NewClient w (Token r) (GitLabURL r) = None"
    and "gitlab_ListReleases w (Token r) (GitLabURL r) (FullPath r @ ''/'' @ RepoName r) = Inr rs"
    and "\<not> DryRun r"
  shows "fst (DeleteGitLabReleases w r s) = None \<and>
         gitlab_deletes (trace (snd (DeleteGitLabReleases w r s))) =
           gitlab_deletes (trace s) @ map gl_TagName rs \<and>
         (\<forall>x \<in> set rs. \<forall>st err.
            gitlab_DeleteRelease w (Token r) (GitLabURL r) (FullPath r @ ''/'' @ RepoName r) (gl_TagName x) = Some (st, err) \<longrightarrow>
            (case st of
               Some status \<Rightarrow> Println (Render warning ''Warning: Failed to delete release %s (status %d): %v''
                                [ArgS (gl_TagName x), ArgD status, ArgV err])
             | None \<Rightarrow> Println (Render warning ''Warning: Failed to delete release %s: %v''
                                [ArgS (gl_TagName x), ArgV err]))
            \<in> set (trace (snd (DeleteGitLabReleases w r s))))"
proof (cases rs)
  case Nil
  with assms show ?thesis by (simp add: DeleteGitLabReleases_def Let_def)
next
  case (Cons a list)
  have "snd (DeleteGitLabReleases w r s) = gitlab_delete_releases w r (FullPath r @ ''/'' @ RepoName r) rs
          (emit [Println (Render info ''Found %d releases'' [ArgD (int (length rs))])]
             (emit [GitLab_ListReleases (FullPath r @ ''/'' @ RepoName r)] s))"
    and "fst (DeleteGitLabReleases w r s) = None"
    using assms Cons by (simp_all add: DeleteGitLabReleases_def Let_def)
  then show ?thesis
    using gl_delete_warned [of _ rs w r "FullPath r @ ''/'' @ RepoName r", OF _ _ refl]
    by (simp only: gl_delete_all trace_emit gitlab_deletes_append gitlab_deletes.simps append_Nil2 simp_thms) blast
qed

subsection \<open>The remote part of the workflow\<close>

lemma remote_phase_cwd [simp]: "cwd (snd (ResetRepo_remote w r tags s)) = cwd s"
  by (simp add: ResetRepo_remote_def Let_def case_prod_beta split: option.splits)

lemma remote_phase_keeps: "e \<in> set (trace s) \<Longrightarrow> e \<in> set (trace (snd (ResetRepo_remote w r tags s)))"
  by (simp add: ResetRepo_remote_def Let_def case_prod_beta RunGit_keeps remote_mono
      DeleteGitHubReleases_mono DeleteGitLabReleases_mono split: option.splits)

lemma remote_phase_calls:
  "git_calls (trace (snd (ResetRepo_remote w r tags s))) =
     git_calls (trace s) @ map (\<lambda>t. [''push'', ''origin'', ''--delete'', ''refs/tags/'' @ t]) tags @
     [[''push'', ''-f'', ''origin'', ''main'']]"
  by (cases tags) (simp_all add: ResetRepo_remote_def Let_def case_prod_beta split: option.splits)

lemma remote_phase_warned:
  assumes "t \<in> set tags"
    and "git w [''push'', ''origin'', ''--delete'', ''refs/tags/'' @ t] = (out, Some err)"
  shows "Println (Render warning ''Warning: Failed to delete remote tag %s: %v''
     [ArgS t, ArgV (CommandError (''git push origin --delete refs/tags/'' @ t) out err)])
     \<in> set (trace (snd (ResetRepo_remote w r tags s)))"
proof -
  let ?e = "Println (Render warning ''Warning: Failed to delete remote tag %s: %v''
     [ArgS t, ArgV (CommandError (''git push origin --delete refs/tags/'' @ t) out err)])"
  let ?s8 = "delete_remote_tags w tags s"
  let ?s9 = "snd (RunGitCommandWithOutput w [''push'', ''-f'', ''origin'', ''main''] ?s8)"
  have "?e \<in> set (trace ?s8)" using assms by (rule remote_warned)
  then have s9: "?e \<in> set (trace ?s9)" using RunGit_mono by blast
  from assms(1) have ne: "length tags > 0" by (cases tags) simp_all
  show ?thesis
    unfolding ResetRepo_remote_def Let_def case_prod_beta
    using s9 DeleteGitHubReleases_mono [OF s9] DeleteGitLabReleases_mono [OF s9] ne
    by (simp split: option.splits)
qed

lemma steps_clone:
  assumes "os_Chdir w tmp = None"
  shows "Git [''clone'', cloneURL r] \<in> set (trace (snd (ResetRepo_steps w r m tmp s)))"
proof -
  let ?s2 = "emit [Println (Render info ''Cloning repository: git clone %s'' [ArgS (cloneURL r)])]
               (snd (Chdir_call w tmp s))"
  let ?s3 = "snd (RunGitCommandWithOutput w [''clone'', cloneURL r] ?s2)"
  have s3: "Git [''clone'', cloneURL r] \<in> set (trace ?s3)" by (rule RunGit_mem)
  show ?thesis
    using assms s3
    by (simp add: ResetRepo_steps_def Let_def case_prod_beta ops_keeps GetGitTags_mono local_keeps
        remote_phase_keeps split: option.splits sum.splits)
qed

section \<open>The claims\<close>

subsection \<open>C1: failure policy of the five git operations\<close>

text \<open>
  The loop tests \<^verbatim>\<open>strings.Contains(op.args[0], "branch -D")\<close>.  The first argument of the
  deletion is \<^verbatim>\<open>branch\<close>, which does not contain \<^verbatim>\<open>branch -D\<close>, so the test never holds and
  a failure of any of the five operations ends the loop with an error.
\<close>

lemma gitOperations_failure_is_fatal:
  assumes "(desc, args) \<in> set (gitOperations m)"
    and "git w args = (out, Some e)"
  shows "fst (run_gitOperations w ((desc, args) # ops) s) =
           Some (Errorf ''failed to %s: %v''
                   [ArgS desc, ArgV (CommandError (''git '' @ Join args '' '') out e)])"
  using assms
  by (auto simp: gitOperations_def Let_def case_prod_beta RunGit_fst)

text \<open>
  Claim C1 says that a failure of "delete old primary branch" (\<^verbatim>\<open>git branch -D main\<close>) in the
  RewriteHistory phase is tolerated and the sequence continues to the rename, while a failure of
  any of the other four operations makes \<^verbatim>\<open>ResetRepo\<close> return an error at once.  The code
  on a repository without a branch \<^verbatim>\<open>main\<close>, every other command succeeding: \<^verbatim>\<open>ResetRepo\<close>
  returns the error of the deletion, and \<^verbatim>\<open>git branch -m main\<close> is never run.
\<close>

theorem branch_delete_failure_is_fatal:
  "fst (ResetRepo no_main_branch owner_repo ''Initial commit'' start) =
     Some (Errorf ''failed to %s: %v''
             [ArgS ''Removing old main branch'',
              ArgV (CommandError ''git branch -D main'' ''error: branch 'main' not found.''
                      (External ''exit status 1''))])
   \<and> git_calls (trace (snd (ResetRepo no_main_branch owner_repo ''Initial commit'' start))) =
       [[''clone'', ''https://github.com/owner/repo.git''],
        [''checkout'', ''--orphan'', ''temp_branch''], [''add'', ''-A''],
        [''commit'', ''-m'', ''Initial commit''], [''branch'', ''-D'', ''main'']]"
  by (simp add: ResetRepo_def ResetRepo_steps_def no_main_branch_def calm_def owner_repo_def
      start_def RemoveAll_call_def MkdirAll_call_def Chdir_call_def RunGitCommandWithOutput_def
      emit_def cloneURL_def GitHub_def gitOperations_def resolve_def Let_def)

subsection \<open>C2: the dry run\<close>

text \<open>
  In a dry run \<^verbatim>\<open>ResetRepo\<close> returns at the dry-run checkpoint, so it makes no call of a
  provider API at all: the releases are not even listed.
\<close>

lemma dry_run_makes_no_api_call:
  assumes "DryRun r"
  shows "filter is_api_call (trace (snd (ResetRepo w r m s))) = filter is_api_call (trace s)"
  using assms
  by (simp add: ResetRepo_def ResetRepo_steps_def Let_def case_prod_beta
      split: option.splits sum.splits)


text \<open>
  Claim C2 says that a dry run that reaches the dry-run checkpoint, with tags and a release on
  the remote, makes no remote push or delete, reports the tags that would be deleted remotely
  and the releases that would be deleted, and ends successfully with a dry-run marker.  The
  code on a dry run with two tags and one release: exit status 0, no push or delete command, the
  two tags reported, the marker printed; the releases are neither listed nor reported, because
  \<^verbatim>\<open>ResetRepo\<close> returns at the checkpoint, before the release cleanup that holds the dry-run
  report of the releases.
\<close>

theorem dry_run_reports_no_release: "main tagged_release dry_flags start =
  (0, \<lparr>trace =
        [ShowLogo,
         Printf (Render info ''Using default commit message: '%s'\<newline>'' []) [ArgS ''Initial commit''],
         Println (Render warning ''DRY RUN: Will simulate squashing all commits on main branch'' []),
         RemoveAll [''tmp'', ''git-tmp''], MkdirAll [''tmp'', ''git-tmp''],
         Chdir [''tmp'', ''git-tmp''],
         Println (Render info ''Cloning repository: git clone %s'' [ArgS ''https://github.com/owner/repo.git'']),
         Git [''clone'', ''https://github.com/owner/repo.git''],
         Chdir [''tmp'', ''git-tmp'', ''repo''],
         Println (Render info ''Executing: git %s'' [ArgS ''checkout --orphan temp_branch'']),
         Git [''checkout'', ''--orphan'', ''temp_branch''],
         Println (Render info ''Executing: git %s'' [ArgS ''add -A'']),
         Git [''add'', ''-A''],
         Println (Render info ''Executing: git %s'' [ArgS ''commit -m Initial commit'']),
         Git [''commit'', ''-m'', ''Initial commit''],
         Println (Render info ''Executing: git %s'' [ArgS ''branch -D main'']),
         Git [''branch'', ''-D'', ''main''],
         Println (Render info ''Executing: git %s'' [ArgS ''branch -m main'']),
         Git [''branch'', ''-m'', ''main''],
         Git [''tag''],
         Println (Render info ''Found %d tags to delete'' [ArgD 2]),
         Println (Render info ''Removing local tag: %s'' [ArgS ''v1.0.0'']),
         Git [''tag'', ''-d'', ''v1.0.0''],
         Println (Render info ''Removing local tag: %s'' [ArgS ''v1.1.0'']),
         Git [''tag'', ''-d'', ''v1.1.0''],
         Printf (Render info ''\<newline>Would delete %d remote tags: %v\<newline>'' []) [ArgD 2, ArgL [''v1.0.0'', ''v1.1.0'']],
         Println (Render info ''Would execute: git push -f origin main'' []),
         RemoveAll [''tmp'', ''git-tmp''],
         Println (Render info ''\<newline>Dry run completed. No changes were pushed to remote.'' [])],
      cwd = [''tmp'', ''git-tmp'', ''repo''], gone = [[''tmp'', ''git-tmp'']]\<rparr>)"
    by (simp add: main_def main_until_reset_def dry_flags_def defaultCommitMsg_def
      ResetRepo_def ResetRepo_steps_def tagged_release_def calm_def start_def
      RemoveAll_call_def MkdirAll_call_def Chdir_call_def RunGitCommandWithOutput_def emit_def
      cloneURL_def GitHub_def gitOperations_def resolve_def Let_def GetGitTags_def
      tags_eval TrimSpace_Nil)


subsection \<open>C3: no tags\<close>

text \<open>
  Claim C3: when the tag-listing command prints nothing, \<^verbatim>\<open>GetGitTags\<close> returns the empty
  sequence, not the sequence of one empty string.  (By \<open>GetGitTags_never_empty_name\<close> it does
  not return that sequence on any output.)
\<close>

theorem GetGitTags_no_tags:
  "git w [''tag''] = ([], None) \<Longrightarrow> fst (GetGitTags w s) = Inr []"
  by (simp add: GetGitTags_def TrimSpace_Nil)


theorem GetGitTags_no_tags_witness:
  "git calm [''tag''] = ([], None) \<and> fst (GetGitTags calm start) = Inr []"
  using GetGitTags_no_tags [of calm start] by (simp add: calm_def)


subsection \<open>C4: the clone URL\<close>

text \<open>
  Claim C4: the clone URL is a function of the target alone.  For GitHub it is
  \<^verbatim>\<open>https://github.com/{owner}/{repo}.git\<close>, for GitLab \<^verbatim>\<open>{baseURL}/{owner}/{repo}.git\<close>, and
  it is the URL that \<^verbatim>\<open>ResetRepo\<close> clones once the workspace is prepared.  The witness has
  the example of the specification: base URL \<^verbatim>\<open>https://gitlab.example.com\<close>, group path
  \<^verbatim>\<open>team/sub\<close>, repository \<^verbatim>\<open>proj\<close>.
\<close>

theorem cloneURL_by_provider:
  "(Provider r = GitHub \<longrightarrow>
      cloneURL r = ''https://github.com/'' @ FullPath r @ ''/'' @ RepoName r @ ''.git'')
   \<and> (Provider r = GitLab \<longrightarrow>
      cloneURL r = GitLabURL r @ ''/'' @ FullPath r @ ''/'' @ RepoName r @ ''.git'')
   \<and> (os_RemoveAll w (os_TempDir w @ [''git-tmp'']) = None \<longrightarrow>
      os_MkdirAll w (os_TempDir w @ [''git-tmp'']) = None \<longrightarrow>
      os_Chdir w (os_TempDir w @ [''git-tmp'']) = None \<longrightarrow>
      Git [''clone'', cloneURL r] \<in> set (trace (snd (ResetRepo w r m s))))"
proof -
  have "os_Chdir w (os_TempDir w @ [''git-tmp'']) = None \<Longrightarrow>
      os_RemoveAll w (os_TempDir w @ [''git-tmp'']) = None \<Longrightarrow>
      os_MkdirAll w (os_TempDir w @ [''git-tmp'']) = None \<Longrightarrow>
      Git [''clone'', cloneURL r] \<in> set (trace (snd (ResetRepo w r m s)))"
    using steps_clone [of w "os_TempDir w @ [''git-tmp'']" r m]
    by (simp add: ResetRepo_def Let_def case_prod_beta)
  then show ?thesis
    by (simp add: cloneURL_def GitHub_def GitLab_def)
qed


theorem cloneURL_by_provider_witness:
  "Provider owner_repo = GitHub \<and> cloneURL owner_repo = ''https://github.com/owner/repo.git''
   \<and> Provider team_proj = GitLab \<and> cloneURL team_proj = ''https://gitlab.example.com/team/sub/proj.git''
   \<and> os_RemoveAll calm (os_TempDir calm @ [''git-tmp'']) = None
   \<and> os_MkdirAll calm (os_TempDir calm @ [''git-tmp'']) = None
   \<and> os_Chdir calm (os_TempDir calm @ [''git-tmp'']) = None
   \<and> Git [''clone'', ''https://gitlab.example.com/team/sub/proj.git'']
        \<in> set (trace (snd (ResetRepo calm team_proj ''Initial commit'' start)))"
proof -
  have p: "Provider owner_repo = GitHub" "Provider team_proj = GitLab"
    by (simp_all add: owner_repo_def team_proj_def)
  have h: "os_RemoveAll calm (os_TempDir calm @ [''git-tmp'']) = None"
    "os_MkdirAll calm (os_TempDir calm @ [''git-tmp'']) = None"
    "os_Chdir calm (os_TempDir calm @ [''git-tmp'']) = None"
    by (simp_all add: calm_def)
  from p(1) cloneURL_by_provider [of owner_repo calm "''Initial commit''" start]
  have u1: "cloneURL owner_repo = ''https://github.com/owner/repo.git''"
    by (simp add: owner_repo_def)
  from p(2) cloneURL_by_provider [of team_proj calm "''Initial commit''" start]
  have u2: "cloneURL team_proj = ''https://gitlab.example.com/team/sub/proj.git''"
    by (simp add: team_proj_def)
  from h cloneURL_by_provider [of team_proj calm "''Initial commit''" start]
  have "Git [''clone'', cloneURL team_proj]
          \<in> set (trace (snd (ResetRepo calm team_proj ''Initial commit'' start)))"
    by blast
  then have "Git [''clone'', ''https://gitlab.example.com/team/sub/proj.git'']
          \<in> set (trace (snd (ResetRepo calm team_proj ''Initial commit'' start)))"
    by (simp only: u2)
  with p h u1 u2 show ?thesis by blast
qed


subsection \<open>C5: failures in the release cleanup\<close>





subsection \<open>C6: a failed clone\<close>

text \<open>
  Claim C6: when the clone fails, \<^verbatim>\<open>ResetRepo\<close> returns the error of the clone at once;
  after the clone command the trace holds the deferred removal of the workspace and nothing
  else, so no step of RewriteHistory, tag cleanup, push or release cleanup runs.
\<close>

theorem ResetRepo_clone_fails:
  assumes "os_RemoveAll w (os_TempDir w @ [''git-tmp'']) = None"
    and "os_MkdirAll w (os_TempDir w @ [''git-tmp'']) = None"
    and "os_Chdir w (os_TempDir w @ [''git-tmp'']) = None"
    and "git w [''clone'', cloneURL r] = (out, Some e)"
  shows "fst (ResetRepo w r m s) =
           Some (Errorf ''failed to clone repository: %v''
                   [ArgV (CommandError (''git clone '' @ cloneURL r) out e)])
       \<and> trace (snd (ResetRepo w r m s)) =
           trace s @
           [RemoveAll (os_TempDir w @ [''git-tmp'']), MkdirAll (os_TempDir w @ [''git-tmp'']),
            Chdir (os_TempDir w @ [''git-tmp'']),
            Println (Render info ''Cloning repository: git clone %s'' [ArgS (cloneURL r)]),
            Git [''clone'', cloneURL r], RemoveAll (os_TempDir w @ [''git-tmp''])]"
  using assms
  by (simp add: ResetRepo_def ResetRepo_steps_def RemoveAll_call_def MkdirAll_call_def Chdir_call_def
      RunGitCommandWithOutput_def emit_def Let_def split: option.splits)


theorem ResetRepo_clone_fails_witness:
  "os_RemoveAll clone_fails (os_TempDir clone_fails @ [''git-tmp'']) = None
   \<and> os_MkdirAll clone_fails (os_TempDir clone_fails @ [''git-tmp'']) = None
   \<and> os_Chdir clone_fails (os_TempDir clone_fails @ [''git-tmp'']) = None
   \<and> git clone_fails [''clone'', cloneURL owner_repo] =
        (''fatal: repository not found'', Some (External ''exit status 128''))
   \<and> fst (ResetRepo clone_fails owner_repo ''Initial commit'' start) =
        Some (Errorf ''failed to clone repository: %v''
                [ArgV (CommandError ''git clone https://github.com/owner/repo.git''
                         ''fatal: repository not found'' (External ''exit status 128''))])
   \<and> trace (snd (ResetRepo clone_fails owner_repo ''Initial commit'' start)) =
        [RemoveAll [''tmp'', ''git-tmp''], MkdirAll [''tmp'', ''git-tmp''], Chdir [''tmp'', ''git-tmp''],
         Println (Render info ''Cloning repository: git clone %s''
                    [ArgS ''https://github.com/owner/repo.git'']),
         Git [''clone'', ''https://github.com/owner/repo.git''], RemoveAll [''tmp'', ''git-tmp'']]"
proof -
  have url: "cloneURL owner_repo = ''https://github.com/owner/repo.git''"
    by (simp add: cloneURL_def owner_repo_def)
  have h: "os_RemoveAll clone_fails (os_TempDir clone_fails @ [''git-tmp'']) = None"
    "os_MkdirAll clone_fails (os_TempDir clone_fails @ [''git-tmp'']) = None"
    "os_Chdir clone_fails (os_TempDir clone_fails @ [''git-tmp'']) = None"
    "git clone_fails [''clone'', cloneURL owner_repo] =
        (''fatal: repository not found'', Some (External ''exit status 128''))"
    by (simp_all add: clone_fails_def calm_def url)
  show ?thesis
    using h ResetRepo_clone_fails [OF h, of "''Initial commit''" start]
    by (simp add: url start_def clone_fails_def calm_def)
qed


subsection \<open>C7: failures in the remote tag cleanup\<close>

text \<open>
  Claim C7: in a run that is no dry run and reaches the remote tag cleanup with the tags
  \<open>tags\<close>, the git commands of the run are, in this order, the clone, the five operations, the
  tag listing, the local deletion of every tag, the remote deletion of every tag and the force
  push, whichever deletions fail; and every failed remote deletion is printed as a warning.
\<close>

theorem remote_tag_cleanup_tolerant:
  assumes "os_RemoveAll w (os_TempDir w @ [''git-tmp'']) = None"
    and "os_MkdirAll w (os_TempDir w @ [''git-tmp'']) = None"
    and "os_Chdir w (os_TempDir w @ [''git-tmp'']) = None"
    and "snd (git w [''clone'', cloneURL r]) = None"
    and ops: "\<forall>op \<in> set (gitOperations m). snd (git w (snd op)) = None"
    and tags: "fst (GetGitTags w s) = Inr tags"
    and "\<not> DryRun r"
  shows "git_calls (trace (snd (ResetRepo w r m s))) =
           git_calls (trace s) @ [[''clone'', cloneURL r]] @ map snd (gitOperations m) @ [[''tag'']] @
           map (\<lambda>t. [''tag'', ''-d'', t]) tags @
           map (\<lambda>t. [''push'', ''origin'', ''--delete'', ''refs/tags/'' @ t]) tags @
           [[''push'', ''-f'', ''origin'', ''main'']]
         \<and> (\<forall>t \<in> set tags. \<forall>out err.
               git w [''push'', ''origin'', ''--delete'', ''refs/tags/'' @ t] = (out, Some err) \<longrightarrow>
               Println (Render warning ''Warning: Failed to delete remote tag %s: %v''
                 [ArgS t, ArgV (CommandError (''git push origin --delete refs/tags/'' @ t) out err)])
               \<in> set (trace (snd (ResetRepo w r m s))))"
proof -
  have tags': "\<And>s'. fst (GetGitTags w s') = Inr tags"
    using tags GetGitTags_fst by metis
  note ok = ops_succeed [OF ops]
  have shape: "\<exists>s7. git_calls (trace s7) = git_calls (trace s) @ [[''clone'', cloneURL r]] @ map snd (gitOperations m) @ [[''tag'']] @
           map (\<lambda>t. [''tag'', ''-d'', t]) tags \<and>
      trace (snd (ResetRepo w r m s)) = trace (snd (ResetRepo_remote w r tags s7)) @ [RemoveAll (os_TempDir w @ [''git-tmp''])]"
    using assms(1-4,7)
    apply (simp add: ResetRepo_def ResetRepo_steps_def Let_def case_prod_beta RunGit_fst ok tags'
        split del: if_split)
    apply (rule exI, rule conjI)
     prefer 2
     apply (rule refl)
    apply (simp add: ok)
    done
  then obtain s7 where calls: "git_calls (trace s7) = git_calls (trace s) @ [[''clone'', cloneURL r]] @ map snd (gitOperations m) @ [[''tag'']] @
           map (\<lambda>t. [''tag'', ''-d'', t]) tags"
    and final: "trace (snd (ResetRepo w r m s)) = trace (snd (ResetRepo_remote w r tags s7)) @ [RemoveAll (os_TempDir w @ [''git-tmp''])]"
    by blast
  have "git_calls (trace (snd (ResetRepo w r m s))) =
           git_calls (trace s) @ [[''clone'', cloneURL r]] @ map snd (gitOperations m) @ [[''tag'']] @
           map (\<lambda>t. [''tag'', ''-d'', t]) tags @
           map (\<lambda>t. [''push'', ''origin'', ''--delete'', ''refs/tags/'' @ t]) tags @
           [[''push'', ''-f'', ''origin'', ''main'']]"
    unfolding final by (simp only: git_calls_append remote_phase_calls calls git_calls.simps append_Nil2 append_assoc)
  moreover have "\<forall>t \<in> set tags. \<forall>out err.
               git w [''push'', ''origin'', ''--delete'', ''refs/tags/'' @ t] = (out, Some err) \<longrightarrow>
               Println (Render warning ''Warning: Failed to delete remote tag %s: %v''
                 [ArgS t, ArgV (CommandError (''git push origin --delete refs/tags/'' @ t) out err)])
               \<in> set (trace (snd (ResetRepo w r m s)))"
    unfolding final using remote_phase_warned by (simp only: set_append Un_iff) blast
  ultimately show ?thesis by (rule conjI)
qed


theorem remote_tag_cleanup_tolerant_witness:
  "os_RemoveAll three_tags (os_TempDir three_tags @ [''git-tmp'']) = None
   \<and> os_MkdirAll three_tags (os_TempDir three_tags @ [''git-tmp'']) = None
   \<and> os_Chdir three_tags (os_TempDir three_tags @ [''git-tmp'']) = None
   \<and> snd (git three_tags [''clone'', cloneURL owner_repo]) = None
   \<and> map (\<lambda>op. snd (git three_tags (snd op))) (gitOperations ''Initial commit'') =
        [None, None, None, None, None]
   \<and> fst (GetGitTags three_tags start) = Inr [''v1'', ''v2'', ''v3'']
   \<and> \<not> DryRun owner_repo
   \<and> git three_tags [''push'', ''origin'', ''--delete'', ''refs/tags/v2''] =
        (''error: unable to delete'', Some (External ''exit status 1''))
   \<and> git_calls (trace (snd (ResetRepo three_tags owner_repo ''Initial commit'' start))) =
        [[''clone'', ''https://github.com/owner/repo.git''],
         [''checkout'', ''--orphan'', ''temp_branch''], [''add'', ''-A''],
         [''commit'', ''-m'', ''Initial commit''], [''branch'', ''-D'', ''main''],
         [''branch'', ''-m'', ''main''], [''tag''],
         [''tag'', ''-d'', ''v1''], [''tag'', ''-d'', ''v2''], [''tag'', ''-d'', ''v3''],
         [''push'', ''origin'', ''--delete'', ''refs/tags/v1''],
         [''push'', ''origin'', ''--delete'', ''refs/tags/v2''],
         [''push'', ''origin'', ''--delete'', ''refs/tags/v3''],
         [''push'', ''-f'', ''origin'', ''main'']]
   \<and> Println (Render warning ''Warning: Failed to delete remote tag %s: %v''
        [ArgS ''v2'', ArgV (CommandError ''git push origin --delete refs/tags/v2''
                             ''error: unable to delete'' (External ''exit status 1''))])
       \<in> set (trace (snd (ResetRepo three_tags owner_repo ''Initial commit'' start)))"
proof -
  have url: "cloneURL owner_repo = ''https://github.com/owner/repo.git''"
    by (simp add: cloneURL_def owner_repo_def)
  have h: "os_RemoveAll three_tags (os_TempDir three_tags @ [''git-tmp'']) = None"
    "os_MkdirAll three_tags (os_TempDir three_tags @ [''git-tmp'']) = None"
    "os_Chdir three_tags (os_TempDir three_tags @ [''git-tmp'']) = None"
    "snd (git three_tags [''clone'', cloneURL owner_repo]) = None"
    "\<forall>op \<in> set (gitOperations ''Initial commit''). snd (git three_tags (snd op)) = None"
    "fst (GetGitTags three_tags start) = Inr [''v1'', ''v2'', ''v3'']"
    "\<not> DryRun owner_repo"
    by (simp_all add: three_tags_def calm_def url gitOperations_def GetGitTags_def three_tags_eval
        owner_repo_def)
  have f: "git three_tags [''push'', ''origin'', ''--delete'', ''refs/tags/v2''] =
        (''error: unable to delete'', Some (External ''exit status 1''))"
    by (simp add: three_tags_def)
  have ops: "map (\<lambda>op. snd (git three_tags (snd op))) (gitOperations ''Initial commit'') =
        [None, None, None, None, None]"
    by (simp add: three_tags_def calm_def gitOperations_def)
  show ?thesis
    using h(1-4,6,7) ops f remote_tag_cleanup_tolerant [OF h]
    by (simp add: url start_def gitOperations_def)
qed


subsection \<open>C8: the working directory\<close>







subsection \<open>C9: the commit message\<close>

text \<open>
  Claim C9: whenever \<^verbatim>\<open>main\<close> reaches the call of \<^verbatim>\<open>ResetRepo\<close>, the commit message it
  passes is not empty.  (\<open>main_until_reset\<close> returns \<open>Inr\<close> exactly on the paths that reach
  the call; on all others the program has ended by \<^verbatim>\<open>os.Exit\<close>.)
\<close>

theorem main_message_nonempty:
  assumes "fst (main_until_reset w flags s) = Inr (repoInfo, commitMessage)"
  shows "commitMessage \<noteq> [] \<and>
         (commitMessage = flag_CommitMsg flags
          \<or> flag_CommitMsg flags = [] \<and> flag_NoInteractive flags \<and> commitMessage = defaultCommitMsg
          \<or> flag_CommitMsg flags = [] \<and> \<not> flag_NoInteractive flags \<and>
            (\<exists>s'. commitMessage = fst (fst (PromptCommitMessage w s'))))"
proof -
  have "commitMessage \<noteq> []"
    using assms
    by (auto simp: main_until_reset_def Let_def defaultCommitMsg_def
        split: if_splits prod.splits option.splits)
  moreover have "commitMessage = flag_CommitMsg flags
          \<or> flag_CommitMsg flags = [] \<and> flag_NoInteractive flags \<and> commitMessage = defaultCommitMsg
          \<or> flag_CommitMsg flags = [] \<and> \<not> flag_NoInteractive flags \<and>
            (\<exists>s'. commitMessage = fst (fst (PromptCommitMessage w s')))"
    using assms
    by (auto simp: main_until_reset_def Let_def split: if_splits prod.splits option.splits)
       (metis fst_conv)+
  ultimately show ?thesis by blast
qed


theorem main_message_nonempty_witness:
  "fst (main_until_reset typing asking_flags start) = Inr (owner_repo, ''fresh start'')
   \<and> ''fresh start'' \<noteq> []
   \<and> flag_CommitMsg asking_flags = [] \<and> \<not> flag_NoInteractive asking_flags
   \<and> fst (fst (PromptCommitMessage typing start)) = ''fresh start''"
proof -
  have h: "fst (main_until_reset typing asking_flags start) = Inr (owner_repo, ''fresh start'')"
    by (simp add: main_until_reset_def typing_def calm_def asking_flags_def start_def owner_repo_def
        PromptConfirmation_def PromptCommitMessage_def InitialCommitModel_def Let_def GitHub_def)
  have p: "fst (fst (PromptCommitMessage typing start)) = ''fresh start''"
    by (simp add: typing_def calm_def PromptCommitMessage_def InitialCommitModel_def Let_def)
  from h p main_message_nonempty [OF h] show ?thesis
    by (simp add: asking_flags_def)
qed


subsection \<open>C10: no releases\<close>

text \<open>
  Claim C10, for both providers: when the listing succeeds and returns no release, the cleanup
  returns success after the listing and one message, without any deletion, whether or not the
  run is a dry run.
\<close>

theorem release_cleanup_none:
  "(github_ListReleases w (Token r) (FullPath r) (RepoName r) = Inr [] \<longrightarrow>
      DeleteGitHubReleases w r s =
        (None, emit [GitHub_ListReleases (FullPath r) (RepoName r),
                     Println (Render info ''No releases found to delete'' [])] s))
  \<and> (gitlab_NewClient w (Token r) (GitLabURL r) = None \<longrightarrow>
     gitlab_ListReleases w (Token r) (GitLabURL r) (FullPath r @ ''/'' @ RepoName r) = Inr [] \<longrightarrow>
      DeleteGitLabReleases w r s =
        (None, emit [GitLab_ListReleases (FullPath r @ ''/'' @ RepoName r),
                     Println (Render info ''No releases found to delete'' [])] s))"
  by (simp add: DeleteGitHubReleases_def DeleteGitLabReleases_def emit_def Let_def)


theorem release_cleanup_none_witness:
  "github_ListReleases calm ''token'' ''owner'' ''repo'' = Inr []
   \<and> DeleteGitHubReleases calm (owner_repo\<lparr>DryRun := True\<rparr>) start =
        (None, \<lparr>trace = [GitHub_ListReleases ''owner'' ''repo'',
                          Println (Render info ''No releases found to delete'' [])],
                cwd = [''home''], gone = []\<rparr>)
   \<and> gitlab_NewClient calm ''token'' ''https://gitlab.example.com'' = None
   \<and> gitlab_ListReleases calm ''token'' ''https://gitlab.example.com'' ''team/sub/proj'' = Inr []
   \<and> DeleteGitLabReleases calm team_proj start =
        (None, \<lparr>trace = [GitLab_ListReleases ''team/sub/proj'',
                          Println (Render info ''No releases found to delete'' [])],
                cwd = [''home''], gone = []\<rparr>)"
  using release_cleanup_none [of calm "owner_repo\<lparr>DryRun := True\<rparr>" start]
    release_cleanup_none [of calm team_proj start]
  by (simp add: calm_def owner_repo_def team_proj_def start_def emit_def)

end
